theory Spec2Isabelle
  imports Main
begin

section \<open>Data model\<close>

text \<open>
  The program is the referrer support of a containerd snapshotter: the resolver of
  \<^verbatim>\<open>pkg/referrer\<close> (\<^verbatim>\<open>checkReferrer\<close>, \<^verbatim>\<open>checkReferrerStandard\<close>,
  \<^verbatim>\<open>checkReferrerTagBased\<close>, \<^verbatim>\<open>validateTagBasedReferrer\<close>, \<^verbatim>\<open>fetchMetadata\<close>), the
  writer of \<^verbatim>\<open>pkg/remote/unpack.go\<close> (\<^verbatim>\<open>atomicWrite\<close>, \<^verbatim>\<open>Unpack\<close>) and the coordinator
  \<^verbatim>\<open>Filesystem.TryFetchMetadata\<close>.

  Paths, references, digests and byte slices are strings. A Go \<^verbatim>\<open>error\<close> is a value of
  \<open>error\<close>; a function returning \<^verbatim>\<open>error\<close> returns \<open>error option\<close> (\<open>None\<close> is
  \<^verbatim>\<open>nil\<close>), one returning \<^verbatim>\<open>(T, error)\<close> returns \<open>error + T\<close>.
\<close>

type_synonym path = string
type_synonym bytes = string

text \<open>An errno: \<^verbatim>\<open>EEXIST\<close>, or another one by its number.\<close>

datatype errno = EEXIST | Other nat

datatype error =
    Errorf string
  | Wrap string error
  | Sys errno
  | External nat

text \<open>
  An \<^verbatim>\<open>io.Reader\<close>: the bytes it delivers, and the error it ends with in place of
  \<^verbatim>\<open>io.EOF\<close>, if any.
\<close>

record stream =
  content :: bytes
  readErr :: "error option"

text \<open>\<^verbatim>\<open>ocispec.Descriptor\<close>, and the fields of \<^verbatim>\<open>ocispec.Manifest\<close> and
  \<^verbatim>\<open>ocispec.Index\<close> that the program reads.\<close>

record descriptor =
  mediaType :: string
  digest :: string
  size_d :: int
  annotations :: "(string \<times> string) list"

record manifest =
  subject :: "descriptor option"
  layers :: "descriptor list"

record index =
  manifests :: "descriptor list"

text \<open>
  What \<^verbatim>\<open>tar.NewReader\<close> iterates over: the entries \<^verbatim>\<open>tr.Next()\<close> yields in order
  (header name, and the reader of the entry's bytes), and how the iteration ends
  (\<open>None\<close> is \<^verbatim>\<open>io.EOF\<close>, \<open>Some e\<close> another error of \<^verbatim>\<open>tr.Next()\<close>).
\<close>

record tar_entry =
  hdr_Name :: string
  body :: stream

record tar_reader =
  entries :: "tar_entry list"
  ending :: "error option"

subsection \<open>The world outside the program\<close>

text \<open>
  Every call of a collaborator (the operating system, the registry client, the per-path
  mutex) is recorded, in order, in the trace of the world. The collaborators are
  deterministic functions of the trace so far, the call being answered last in it: they
  may answer the same call differently at different times.
\<close>

datatype call =
    OpenTmpfile path
  | Write nat
  | Sync nat
  | Linkat nat path
  | Now
  | Rename path path
  | Remove path
  | Close nat
  | Stat path
  | Lock path
  | Unlock path
  | Fetcher string
  | FetchReferrers string
  | Fetch descriptor
  | Resolve string
  | ResolverFetcher string
  | RetryWithPlainHTTP string error

record world =
  files :: "path \<Rightarrow> bytes option"
  trace :: "call list"

record env =
  fault :: "call list \<Rightarrow> nat option"
  next_fd :: "call list \<Rightarrow> nat"
  pid :: nat
  now :: "call list \<Rightarrow> nat"
  filepath_Dir :: "path \<Rightarrow> path"
  decompressStream :: "stream \<Rightarrow> error + stream"
  tar_NewReader :: "stream \<Rightarrow> tar_reader"
  remoteFetcher :: "call list \<Rightarrow> error option"
  fetchReferrers :: "call list \<Rightarrow> error + stream"
  fetch :: "call list \<Rightarrow> error + stream"
  resolve :: "call list \<Rightarrow> error + descriptor"
  resolverFetcher :: "call list \<Rightarrow> error option"
  retryWithPlainHTTP :: "call list \<Rightarrow> bool"
  unmarshalIndex :: "bytes \<Rightarrow> error + index"
  unmarshalManifest :: "bytes \<Rightarrow> error + manifest"
  isNydusMetaLayer :: "(string \<times> string) list \<Rightarrow> bool"
  digestValidate :: "string \<Rightarrow> bool"
  targetRefLabel :: string
  targetManifestDigestLabel :: string

definition emit :: "call \<Rightarrow> world \<Rightarrow> world" where
  "emit c w = w\<lparr>trace := trace w @ [c]\<rparr>"

section \<open>System calls\<close>

text \<open>
  A system call that changes the file system fails when \<open>fault\<close> says so, with the
  errno it gives (never \<^verbatim>\<open>EEXIST\<close>, which only an existing target causes). The model's
  file system is a map from paths to file contents; a file opened with \<^verbatim>\<open>O_TMPFILE\<close>
  has no path, and its bytes are passed along as \<open>data\<close>.
\<close>

definition unix_Open_TMPFILE :: "env \<Rightarrow> path \<Rightarrow> world \<Rightarrow> (errno + nat) \<times> world" where
  "unix_Open_TMPFILE env dir w =
     (let w1 = emit (OpenTmpfile dir) w in
      case fault env (trace w1) of
        Some n \<Rightarrow> (Inl (Other n), w1)
      | None \<Rightarrow> (Inr (next_fd env (trace w1)), w1))"

definition io_Copy :: "env \<Rightarrow> nat \<Rightarrow> stream \<Rightarrow> world \<Rightarrow> (error + bytes) \<times> world" where
  "io_Copy env fd reader w =
     (let w1 = emit (Write fd) w in
      case fault env (trace w1) of
        Some n \<Rightarrow> (Inl (Sys (Other n)), w1)
      | None \<Rightarrow>
          (case readErr reader of
             Some e \<Rightarrow> (Inl e, w1)
           | None \<Rightarrow> (Inr (content reader), w1)))"

definition file_Sync :: "env \<Rightarrow> nat \<Rightarrow> world \<Rightarrow> errno option \<times> world" where
  "file_Sync env fd w =
     (let w1 = emit (Sync fd) w in
      case fault env (trace w1) of
        Some n \<Rightarrow> (Some (Other n), w1)
      | None \<Rightarrow> (None, w1))"

definition unix_Linkat :: "env \<Rightarrow> nat \<Rightarrow> bytes \<Rightarrow> path \<Rightarrow> world \<Rightarrow> errno option \<times> world" where
  "unix_Linkat env fd data newpath w =
     (let w1 = emit (Linkat fd newpath) w in
      case fault env (trace w1) of
        Some n \<Rightarrow> (Some (Other n), w1)
      | None \<Rightarrow>
          (if files w1 newpath \<noteq> None then (Some EEXIST, w1)
           else (None, w1\<lparr>files := (files w1)(newpath := Some data)\<rparr>)))"

definition os_Rename :: "env \<Rightarrow> path \<Rightarrow> path \<Rightarrow> world \<Rightarrow> errno option \<times> world" where
  "os_Rename env oldpath newpath w =
     (let w1 = emit (Rename oldpath newpath) w in
      case fault env (trace w1) of
        Some n \<Rightarrow> (Some (Other n), w1)
      | None \<Rightarrow>
          (if files w1 oldpath = None then (Some (Other 2), w1)
           else (None, w1\<lparr>files := (files w1)(oldpath := None, newpath := files w1 oldpath)\<rparr>)))"

text \<open>Every caller of \<^verbatim>\<open>os.Remove\<close> drops its result.\<close>

definition os_Remove :: "env \<Rightarrow> path \<Rightarrow> world \<Rightarrow> world" where
  "os_Remove env p w =
     (let w1 = emit (Remove p) w in
      case fault env (trace w1) of
        Some n \<Rightarrow> w1
      | None \<Rightarrow> w1\<lparr>files := (files w1)(p := None)\<rparr>)"

text \<open>\<^verbatim>\<open>os.Stat(p)\<close> returns a nil error exactly when \<open>p\<close> is a file of the model.\<close>

definition os_Stat :: "path \<Rightarrow> world \<Rightarrow> bool \<times> world" where
  "os_Stat p w = (let w1 = emit (Stat p) w in (files w1 p \<noteq> None, w1))"

text \<open>The \<^verbatim>\<open>%d\<close> verb of \<^verbatim>\<open>fmt.Sprintf\<close> on a number that is not negative.\<close>

fun decimal :: "nat \<Rightarrow> string" where
  "decimal n =
     (if n < 10 then [''0123456789'' ! n]
      else decimal (n div 10) @ [''0123456789'' ! (n mod 10)])"

declare decimal.simps [simp del]

section \<open>The atomic writer (pkg/remote/unpack.go)\<close>

text \<open>
  The sources hold an earlier variant of this file as well: its \<^verbatim>\<open>Unpack\<close> is the same,
  its \<^verbatim>\<open>atomicWrite\<close> stages through a named temporary file that it unlinks at once. The
  variant modelled here is the one of \<^verbatim>\<open>unpack.go\<close>, which stages through
  \<^verbatim>\<open>O_TMPFILE\<close>.
\<close>

text \<open>
  Modelled from the spec: \<^verbatim>\<open>retry.Do\<close> of \<^verbatim>\<open>pkg/utils/retry\<close> is not among the sources.
  The spec says of it: if the unique staging name itself collides, retry salt generation
  a bounded number of times before failing. Here it is specialised to the closure
  \<^verbatim>\<open>atomicWrite\<close> passes: an attempt builds \<^verbatim>\<open>tmpPath\<close> and links the staged bytes there;
  \<^verbatim>\<open>EEXIST\<close> is retried while attempts remain, any other outcome ends the loop, and with
  \<^verbatim>\<open>LastErrorOnly\<close> the result is the last attempt's. \<^verbatim>\<open>tmpPath\<close> is the closure's captured
  variable.
\<close>

fun retry_Do ::
  "env \<Rightarrow> path \<Rightarrow> nat \<Rightarrow> bytes \<Rightarrow> nat \<Rightarrow> errno option \<times> path \<Rightarrow> world
     \<Rightarrow> (errno option \<times> path) \<times> world" where
  "retry_Do env target fd data 0 last_attempt w = (last_attempt, w)"
| "retry_Do env target fd data (Suc n) last_attempt w =
     (let w1 = emit Now w;
          tmpPath = target @ ''.tmp.'' @ decimal (pid env) @ ''-'' @ decimal fd @ ''-''
                      @ decimal (now env (trace w1))
      in case unix_Linkat env fd data tmpPath w1 of
           (linkErr, w2) \<Rightarrow>
             if linkErr = Some EEXIST
             then retry_Do env target fd data n (linkErr, tmpPath) w2
             else ((linkErr, tmpPath), w2))"

text \<open>The deferred function of \<^verbatim>\<open>atomicWrite\<close>: remove \<^verbatim>\<open>tmpPath\<close> when it is set.\<close>

definition remove_tmpPath :: "env \<Rightarrow> path \<Rightarrow> world \<Rightarrow> world" where
  "remove_tmpPath env tmpPath w = (if length tmpPath > 0 then os_Remove env tmpPath w else w)"

text \<open>\<^verbatim>\<open>atomicWrite\<close> from the point where the target is found to exist.\<close>

definition stage_and_rename ::
  "env \<Rightarrow> path \<Rightarrow> nat \<Rightarrow> bytes \<Rightarrow> world \<Rightarrow> error option \<times> world" where
  "stage_and_rename env target fd data w =
     (case retry_Do env target fd data 3 (None, []) w of
        ((Some e, tmpPath), w1) \<Rightarrow>
          (Some (Wrap (''linkat to staging file for '' @ target) (Sys e)),
           remove_tmpPath env tmpPath w1)
      | ((None, tmpPath), w1) \<Rightarrow>
          (case os_Rename env tmpPath target w1 of
             (Some e, w2) \<Rightarrow>
               (Some (Wrap (''rename staging file '' @ tmpPath @ '' to target '' @ target) (Sys e)),
                remove_tmpPath env tmpPath w2)
           | (None, w2) \<Rightarrow> (None, remove_tmpPath env tmpPath w2)))"

text \<open>\<^verbatim>\<open>atomicWrite\<close> from the point where the anonymous file is open.\<close>

definition write_and_link ::
  "env \<Rightarrow> path \<Rightarrow> stream \<Rightarrow> nat \<Rightarrow> world \<Rightarrow> error option \<times> world" where
  "write_and_link env target reader fd w =
     (case io_Copy env fd reader w of
        (Inl e, w1) \<Rightarrow> (Some (Wrap (''write to temp file for '' @ target) e), w1)
      | (Inr data, w1) \<Rightarrow>
          (case file_Sync env fd w1 of
             (Some e, w2) \<Rightarrow> (Some (Wrap (''sync temp file for '' @ target) (Sys e)), w2)
           | (None, w2) \<Rightarrow>
               (case unix_Linkat env fd data target w2 of
                  (None, w3) \<Rightarrow> (None, w3)
                | (Some e, w3) \<Rightarrow>
                    if e \<noteq> EEXIST
                    then (Some (Wrap (''linkat to target '' @ target) (Sys e)), w3)
                    else stage_and_rename env target fd data w3)))"

definition atomicWrite :: "env \<Rightarrow> path \<Rightarrow> stream \<Rightarrow> world \<Rightarrow> error option \<times> world" where
  "atomicWrite env target reader w =
     (let dir = filepath_Dir env target in
      case unix_Open_TMPFILE env dir w of
        (Inl e, w1) \<Rightarrow> (Some (Wrap (''open temp file in '' @ dir) (Sys e)), w1)
      | (Inr fd, w1) \<Rightarrow>
          (case write_and_link env target reader fd w1 of
             (r, w2) \<Rightarrow> (r, emit (Close fd) w2)))"

text \<open>The loop of \<^verbatim>\<open>Unpack\<close> over \<^verbatim>\<open>tr.Next()\<close>, and what follows it.\<close>

fun scan_entries ::
  "env \<Rightarrow> string \<Rightarrow> path \<Rightarrow> tar_entry list \<Rightarrow> error option \<Rightarrow> world \<Rightarrow> error option \<times> world" where
  "scan_entries env source target [] end_err w =
     (case end_err of
        None \<Rightarrow> (Some (Errorf (''not found file '' @ source @ '' in tar'')), w)
      | Some e \<Rightarrow> (Some e, w))"
| "scan_entries env source target (hdr # rest) end_err w =
     (if hdr_Name hdr = source then atomicWrite env target (body hdr) w
      else scan_entries env source target rest end_err w)"

definition Unpack :: "env \<Rightarrow> stream \<Rightarrow> string \<Rightarrow> path \<Rightarrow> world \<Rightarrow> error option \<times> world" where
  "Unpack env reader source target w =
     (case decompressStream env reader of
        Inl e \<Rightarrow> (Some e, w)
      | Inr rdr \<Rightarrow>
          (let tr = tar_NewReader env rdr
           in scan_entries env source target (entries tr) (ending tr) w))"

section \<open>The referrer resolver (pkg/referrer)\<close>

text \<open>The constants of the package, and the \<^verbatim>\<open>referrer\<close> struct; its \<^verbatim>\<open>remote\<close> field is
  the registry client of \<open>env\<close>.\<close>

definition maxManifestIndexSize :: nat where
  "maxManifestIndexSize = 8388608"

definition metadataNameInLayer :: string where
  "metadataNameInLayer = ''image/image.boot''"

record referrer =
  referrerTagSuffixes :: "string list"

definition io_ReadAll :: "stream \<Rightarrow> error + bytes" where
  "io_ReadAll rc = (case readErr rc of None \<Rightarrow> Inr (content rc) | Some e \<Rightarrow> Inl e)"

text \<open>\<^verbatim>\<open>io.LimitReader(r, n)\<close> ends with \<^verbatim>\<open>io.EOF\<close> once \<open>n\<close> bytes are read.\<close>

definition io_LimitReader :: "stream \<Rightarrow> nat \<Rightarrow> stream" where
  "io_LimitReader rd n =
     (if n \<le> length (content rd) then \<lparr>content = take n (content rd), readErr = None\<rparr>
      else rd)"

text \<open>
  The calls of the registry client, each recorded and answered by \<open>env\<close>.
  \<^verbatim>\<open>r.remote.Resolve(ctx, ref)\<close> only builds the resolver and returns no error: it is not
  recorded. The fetcher that \<^verbatim>\<open>r.remote.Fetcher\<close> returns is taken to implement
  \<^verbatim>\<open>remotes.ReferrersFetcher\<close>, as the unchecked type assertion of
  \<^verbatim>\<open>checkReferrerStandard\<close> requires.
\<close>

definition remote_Fetcher :: "env \<Rightarrow> string \<Rightarrow> world \<Rightarrow> error option \<times> world" where
  "remote_Fetcher env ref w = (let w1 = emit (Fetcher ref) w in (remoteFetcher env (trace w1), w1))"

definition fetcher_FetchReferrers :: "env \<Rightarrow> string \<Rightarrow> world \<Rightarrow> (error + stream) \<times> world" where
  "fetcher_FetchReferrers env manifestDigest w =
     (let w1 = emit (FetchReferrers manifestDigest) w in (fetchReferrers env (trace w1), w1))"

definition fetcher_Fetch :: "env \<Rightarrow> descriptor \<Rightarrow> world \<Rightarrow> (error + stream) \<times> world" where
  "fetcher_Fetch env desc w = (let w1 = emit (Fetch desc) w in (fetch env (trace w1), w1))"

definition resolver_Resolve :: "env \<Rightarrow> string \<Rightarrow> world \<Rightarrow> (error + descriptor) \<times> world" where
  "resolver_Resolve env ref w = (let w1 = emit (Resolve ref) w in (resolve env (trace w1), w1))"

definition resolver_Fetcher :: "env \<Rightarrow> string \<Rightarrow> world \<Rightarrow> error option \<times> world" where
  "resolver_Fetcher env ref w =
     (let w1 = emit (ResolverFetcher ref) w in (resolverFetcher env (trace w1), w1))"

definition remote_RetryWithPlainHTTP :: "env \<Rightarrow> string \<Rightarrow> error \<Rightarrow> world \<Rightarrow> bool \<times> world" where
  "remote_RetryWithPlainHTTP env ref err w =
     (let w1 = emit (RetryWithPlainHTTP ref err) w in (retryWithPlainHTTP env (trace w1), w1))"

definition checkReferrerStandard ::
  "env \<Rightarrow> string \<Rightarrow> string \<Rightarrow> world \<Rightarrow> (error + descriptor) \<times> world" where
  "checkReferrerStandard env ref manifestDigest w =
     (case remote_Fetcher env ref w of
        (Some err, w1) \<Rightarrow> (Inl (Wrap ''get fetcher'' err), w1)
      | (None, w1) \<Rightarrow>
     (case fetcher_FetchReferrers env manifestDigest w1 of
        (Inl err, w2) \<Rightarrow> (Inl (Wrap ''fetch referrers'' err), w2)
      | (Inr rc, w2) \<Rightarrow>
     (case io_ReadAll (io_LimitReader rc maxManifestIndexSize) of
        Inl err \<Rightarrow> (Inl (Wrap ''read referrers'' err), w2)
      | Inr bytes \<Rightarrow>
     (case unmarshalIndex env bytes of
        Inl err \<Rightarrow> (Inl (Wrap ''unmarshal referrers index'' err), w2)
      | Inr index \<Rightarrow>
     (case manifests index of
        [] \<Rightarrow> (Inl (Errorf ''empty referrer list''), w2)
      | first_manifest # others \<Rightarrow>
     (case fetcher_Fetch env first_manifest w2 of
        (Inl err, w3) \<Rightarrow> (Inl (Wrap ''fetch referrers'' err), w3)
      | (Inr rc2, w3) \<Rightarrow>
     (case io_ReadAll rc2 of
        Inl err \<Rightarrow> (Inl (Wrap ''read manifest'' err), w3)
      | Inr bytes2 \<Rightarrow>
     (case unmarshalManifest env bytes2 of
        Inl err \<Rightarrow> (Inl (Wrap ''unmarshal manifest'' err), w3)
      | Inr manifest \<Rightarrow>
          if length (layers manifest) < 1 then (Inl (Errorf ''invalid manifest''), w3)
          else (let metaLayer = last (layers manifest) in
                if \<not> isNydusMetaLayer env (annotations metaLayer)
                then (Inl (Errorf ''invalid nydus manifest''), w3)
                else (Inr metaLayer, w3))))))))))"

text \<open>The registry client whose referrer responses are cut to their first
  \<open>maxManifestIndexSize\<close> bytes.\<close>

definition cap_referrers :: "env \<Rightarrow> env" where
  "cap_referrers env =
     env\<lparr>fetchReferrers :=
           (\<lambda>h. case fetchReferrers env h of
                   Inl e \<Rightarrow> Inl e
                 | Inr rc \<Rightarrow> Inr (io_LimitReader rc maxManifestIndexSize))\<rparr>"

definition validateTagBasedReferrer ::
  "env \<Rightarrow> string \<Rightarrow> string \<Rightarrow> world \<Rightarrow> (error + descriptor) \<times> world" where
  "validateTagBasedReferrer env candidateRef expectedSubject w =
     (case resolver_Resolve env candidateRef w of
        (Inl err, w1) \<Rightarrow> (Inl (Wrap ''resolve reference'' err), w1)
      | (Inr desc, w1) \<Rightarrow>
     (case resolver_Fetcher env candidateRef w1 of
        (Some err, w2) \<Rightarrow> (Inl (Wrap ''get fetcher'' err), w2)
      | (None, w2) \<Rightarrow>
     (case fetcher_Fetch env desc w2 of
        (Inl err, w3) \<Rightarrow> (Inl (Wrap ''fetch manifest'' err), w3)
      | (Inr rc, w3) \<Rightarrow>
     (case io_ReadAll rc of
        Inl err \<Rightarrow> (Inl (Wrap ''read manifest'' err), w3)
      | Inr bytes \<Rightarrow>
     (case unmarshalManifest env bytes of
        Inl err \<Rightarrow> (Inl (Wrap ''unmarshal manifest'' err), w3)
      | Inr manifest \<Rightarrow>
          if (case subject manifest of None \<Rightarrow> True | Some s \<Rightarrow> digest s \<noteq> expectedSubject)
          then (Inl (Errorf ''not a referrer for expected subject''), w3)
          else if length (layers manifest) < 1 then (Inl (Errorf ''invalid manifest''), w3)
          else (let metaLayer = last (layers manifest) in
                if \<not> isNydusMetaLayer env (annotations metaLayer)
                then (Inl (Errorf ''not a nydus manifest''), w3)
                else (Inr metaLayer, w3)))))))"

text \<open>\<^verbatim>\<open>strings.Split(s, sep)\<close> and \<^verbatim>\<open>strings.Join(parts, sep)\<close>, for a separator of one
  character as \<^verbatim>\<open>checkReferrerTagBased\<close> passes.\<close>

fun strings_Split :: "string \<Rightarrow> char \<Rightarrow> string list" where
  "strings_Split [] sep = [[]]"
| "strings_Split (c # cs) sep =
     (if c = sep then [] # strings_Split cs sep
      else (case strings_Split cs sep of
              [] \<Rightarrow> [[c]]
            | p # ps \<Rightarrow> (c # p) # ps))"

fun strings_Join :: "string list \<Rightarrow> char \<Rightarrow> string" where
  "strings_Join [] sep = []"
| "strings_Join [p] sep = p"
| "strings_Join (p # q # ps) sep = p @ sep # strings_Join (q # ps) sep"

text \<open>The loop of \<^verbatim>\<open>checkReferrerTagBased\<close> over the configured suffixes.\<close>

fun try_suffixes ::
  "env \<Rightarrow> string \<Rightarrow> string \<Rightarrow> string \<Rightarrow> string list \<Rightarrow> world \<Rightarrow> (error + descriptor) \<times> world" where
  "try_suffixes env baseRef baseTag manifestDigest [] w =
     (Inl (Errorf ''no tag-based referrer found''), w)"
| "try_suffixes env baseRef baseTag manifestDigest (suffix # rest) w =
     (let candidateRef = baseRef @ '':'' @ baseTag @ suffix in
      case validateTagBasedReferrer env candidateRef manifestDigest w of
        (Inr desc, w1) \<Rightarrow> (Inr desc, w1)
      | (Inl err, w1) \<Rightarrow> try_suffixes env baseRef baseTag manifestDigest rest w1)"

definition checkReferrerTagBased ::
  "env \<Rightarrow> referrer \<Rightarrow> string \<Rightarrow> string \<Rightarrow> world \<Rightarrow> (error + descriptor) \<times> world" where
  "checkReferrerTagBased env r ref manifestDigest w =
     (let parts = strings_Split ref CHR '':'' in
      if length parts < 2 then (Inl (Errorf ''invalid reference format''), w)
      else (let baseTag = last parts;
                baseRef = strings_Join (butlast parts) CHR '':''
            in try_suffixes env baseRef baseTag manifestDigest (referrerTagSuffixes r) w))"

text \<open>The closure \<^verbatim>\<open>handle\<close> of \<^verbatim>\<open>checkReferrer\<close>, and \<^verbatim>\<open>checkReferrer\<close>.\<close>

definition checkReferrer_handle ::
  "env \<Rightarrow> referrer \<Rightarrow> string \<Rightarrow> string \<Rightarrow> world \<Rightarrow> (error + descriptor) \<times> world" where
  "checkReferrer_handle env r ref manifestDigest w =
     (case checkReferrerStandard env ref manifestDigest w of
        (Inr desc, w1) \<Rightarrow> (Inr desc, w1)
      | (Inl err, w1) \<Rightarrow> checkReferrerTagBased env r ref manifestDigest w1)"

definition checkReferrer ::
  "env \<Rightarrow> referrer \<Rightarrow> string \<Rightarrow> string \<Rightarrow> world \<Rightarrow> (error + descriptor) \<times> world" where
  "checkReferrer env r ref manifestDigest w =
     (case checkReferrer_handle env r ref manifestDigest w of
        (Inr desc, w1) \<Rightarrow> (Inr desc, w1)
      | (Inl err, w1) \<Rightarrow>
          (case remote_RetryWithPlainHTTP env ref err w1 of
             (True, w2) \<Rightarrow> checkReferrer_handle env r ref manifestDigest w2
           | (False, w2) \<Rightarrow> (Inl err, w2)))"

text \<open>The closure \<^verbatim>\<open>handle\<close> of \<^verbatim>\<open>fetchMetadata\<close>, and \<^verbatim>\<open>fetchMetadata\<close>.\<close>

definition fetchMetadata_handle ::
  "env \<Rightarrow> string \<Rightarrow> descriptor \<Rightarrow> path \<Rightarrow> world \<Rightarrow> error option \<times> world" where
  "fetchMetadata_handle env ref desc metadataPath w =
     (case resolver_Fetcher env ref w of
        (Some err, w1) \<Rightarrow> (Some (Wrap ''get fetcher'' err), w1)
      | (None, w1) \<Rightarrow>
     (case fetcher_Fetch env desc w1 of
        (Inl err, w2) \<Rightarrow> (Some (Wrap ''fetch nydus metadata'' err), w2)
      | (Inr rc, w2) \<Rightarrow>
     (case Unpack env rc metadataNameInLayer metadataPath w2 of
        (Some err, w3) \<Rightarrow>
          (Some (Wrap ''unpack metadata from layer'' err), os_Remove env metadataPath w3)
      | (None, w3) \<Rightarrow> (None, w3))))"

definition fetchMetadata ::
  "env \<Rightarrow> string \<Rightarrow> descriptor \<Rightarrow> path \<Rightarrow> world \<Rightarrow> error option \<times> world" where
  "fetchMetadata env ref desc metadataPath w =
     (case fetchMetadata_handle env ref desc metadataPath w of
        (None, w1) \<Rightarrow> (None, w1)
      | (Some err, w1) \<Rightarrow>
          (case remote_RetryWithPlainHTTP env ref err w1 of
             (True, w2) \<Rightarrow> fetchMetadata_handle env ref desc metadataPath w2
           | (False, w2) \<Rightarrow> (Some err, w2)))"

section \<open>The fetch coordinator (Filesystem.TryFetchMetadata)\<close>

text \<open>
  Modelled from the spec: \<^verbatim>\<open>TryFetchMetadata\<close> of the referrer manager
  (\<^verbatim>\<open>fs.referrerMgr\<close>) is not among the sources. The spec (4.3, step 4) says of it: call
  the Referrer Resolver to obtain the ArtifactDescriptor, fetch its byte stream from the
  registry via the external client, and pass it to the Atomic Writer with the known entry
  name for the metadata payload. The resolver is \<open>checkReferrer\<close>; the fetch and the
  write are \<open>fetchMetadata\<close>.
\<close>

definition Manager_TryFetchMetadata ::
  "env \<Rightarrow> referrer \<Rightarrow> string \<Rightarrow> string \<Rightarrow> path \<Rightarrow> world \<Rightarrow> error option \<times> world" where
  "Manager_TryFetchMetadata env r ref manifestDigest metadataPath w =
     (case checkReferrer env r ref manifestDigest w of
        (Inl err, w1) \<Rightarrow> (Some err, w1)
      | (Inr desc, w1) \<Rightarrow> fetchMetadata env ref desc metadataPath w1)"

text \<open>
  \<^verbatim>\<open>Filesystem.TryFetchMetadata\<close> between \<^verbatim>\<open>mu.Lock()\<close> and the deferred
  \<^verbatim>\<open>mu.Unlock()\<close>.
\<close>

definition fetch_if_absent ::
  "env \<Rightarrow> referrer \<Rightarrow> string \<Rightarrow> string \<Rightarrow> path \<Rightarrow> world \<Rightarrow> error option \<times> world" where
  "fetch_if_absent env r ref manifestDigest metadataPath w =
     (case os_Stat metadataPath w of
        (True, w1) \<Rightarrow> (None, w1)
      | (False, w1) \<Rightarrow>
          (case Manager_TryFetchMetadata env r ref manifestDigest metadataPath w1 of
             (Some err, w2) \<Rightarrow> (Some (Wrap ''try fetch metadata'' err), w2)
           | (None, w2) \<Rightarrow> (None, w2)))"

text \<open>
  Modelled from the spec: \<^verbatim>\<open>fs.getMetadataMutex\<close> is not among the sources. The spec
  (4.3, steps 1 and 2) says of it: obtain the gate entry for the destination path, creating
  it on first access; acquire the gate exclusively; release it on return. Calls run one
  after another here and each unlocks before it returns, so the mutex of a path is free
  whenever a call starts: locking and unlocking are recorded and never block.
\<close>

definition mutex_Lock :: "path \<Rightarrow> world \<Rightarrow> world" where
  "mutex_Lock p w = emit (Lock p) w"

definition mutex_Unlock :: "path \<Rightarrow> world \<Rightarrow> world" where
  "mutex_Unlock p w = emit (Unlock p) w"

text \<open>\<^verbatim>\<open>Filesystem.TryFetchMetadata\<close>. \<^verbatim>\<open>labels[k]\<close> of a Go map is the empty string for a
  missing key.\<close>

definition TryFetchMetadata ::
  "env \<Rightarrow> referrer \<Rightarrow> (string \<Rightarrow> string option) \<Rightarrow> path \<Rightarrow> world \<Rightarrow> error option \<times> world" where
  "TryFetchMetadata env r labels metadataPath w =
     (case labels (targetRefLabel env) of
        None \<Rightarrow> (Some (Errorf (''empty label '' @ targetRefLabel env)), w)
      | Some ref \<Rightarrow>
          (let manifestDigest =
                 (case labels (targetManifestDigestLabel env) of None \<Rightarrow> [] | Some d \<Rightarrow> d)
           in if \<not> digestValidate env manifestDigest
              then (Some (Errorf (''invalid label '' @ targetManifestDigestLabel env @ ''=''
                                    @ manifestDigest)), w)
              else (case fetch_if_absent env r ref manifestDigest metadataPath
                           (mutex_Lock metadataPath w) of
                      (res, w1) \<Rightarrow> (res, mutex_Unlock metadataPath w1))))"

section \<open>Traces\<close>

text \<open>
  The calls one run of the two-path resolution can make. On the standards path: the
  steps \<^verbatim>\<open>Fetcher\<close>, \<^verbatim>\<open>FetchReferrers\<close>, \<^verbatim>\<open>Fetch\<close> in this order, each once, up to the
  step that fails. For a candidate of the tag-based path: \<^verbatim>\<open>Resolve\<close>,
  \<^verbatim>\<open>ResolverFetcher\<close>, \<^verbatim>\<open>Fetch\<close>, likewise. On the tag-based path: the steps of the
  candidates in their order, up to the candidate that is accepted.
\<close>

fun is_retry_call :: "call \<Rightarrow> bool" where
  "is_retry_call (RetryWithPlainHTTP ref err) = True"
| "is_retry_call c = False"

definition standard_steps :: "string \<Rightarrow> string \<Rightarrow> call list \<Rightarrow> bool" where
  "standard_steps ref manifestDigest calls =
     (calls = [Fetcher ref] \<or> calls = [Fetcher ref, FetchReferrers manifestDigest] \<or>
      (\<exists>m. calls = [Fetcher ref, FetchReferrers manifestDigest, Fetch m]))"

definition candidate_steps :: "string \<Rightarrow> call list \<Rightarrow> bool" where
  "candidate_steps candidateRef calls =
     (calls = [Resolve candidateRef] \<or>
      calls = [Resolve candidateRef, ResolverFetcher candidateRef] \<or>
      (\<exists>d. calls = [Resolve candidateRef, ResolverFetcher candidateRef, Fetch d]))"

fun tag_steps :: "string list \<Rightarrow> call list \<Rightarrow> bool" where
  "tag_steps [] calls = (calls = [])"
| "tag_steps (c # cs) calls =
     (calls = [] \<or> (\<exists>a b. calls = a @ b \<and> candidate_steps c a \<and> tag_steps cs b))"

definition candidateRefs :: "referrer \<Rightarrow> string \<Rightarrow> string list" where
  "candidateRefs r ref =
     (let parts = strings_Split ref CHR '':'' in
      map (\<lambda>suffix. strings_Join (butlast parts) CHR '':'' @ '':'' @ last parts @ suffix)
        (referrerTagSuffixes r))"

definition run_steps :: "referrer \<Rightarrow> string \<Rightarrow> string \<Rightarrow> call list \<Rightarrow> bool" where
  "run_steps r ref manifestDigest calls =
     (\<exists>a b. calls = a @ b \<and> standard_steps ref manifestDigest a \<and> tag_steps (candidateRefs r ref) b)"

section \<open>Concrete worlds\<close>

text \<open>
  A host on which no system call fails, and a registry that holds four referrer
  manifests of the image \<^verbatim>\<open>sha256:1111\<close> and one metadata layer. The decoders stand for
  \<^verbatim>\<open>json.Unmarshal\<close> and \<^verbatim>\<open>archive/tar\<close> on the documents the registry holds; like
  \<^verbatim>\<open>json.Unmarshal\<close>, the index decoder accepts white space after the document.
\<close>

definition boot_layer :: descriptor where
  "boot_layer =
     \<lparr>mediaType = ''application/vnd.oci.image.layer.v1.tar+gzip'', digest = ''sha256:b007'',
      size_d = 10, annotations = [(''containerd.io/snapshot/nydus-bootstrap'', ''true'')]\<rparr>"

definition blob_layer :: descriptor where
  "blob_layer =
     \<lparr>mediaType = ''application/vnd.oci.image.layer.nydus.blob.v1'', digest = ''sha256:b10b'',
      size_d = 4096, annotations = [(''containerd.io/snapshot/nydus-blob'', ''true'')]\<rparr>"

definition manifest_desc :: "string \<Rightarrow> descriptor" where
  "manifest_desc d =
     \<lparr>mediaType = ''application/vnd.oci.image.manifest.v1+json'', digest = d,
      size_d = 16, annotations = []\<rparr>"

definition nydus_manifest :: manifest where
  "nydus_manifest =
     \<lparr>subject = Some (manifest_desc ''sha256:1111''), layers = [blob_layer, boot_layer]\<rparr>"

definition plain_manifest :: manifest where
  "plain_manifest =
     \<lparr>subject = Some (manifest_desc ''sha256:1111''), layers = [boot_layer, blob_layer]\<rparr>"

definition foreign_manifest :: manifest where
  "foreign_manifest =
     \<lparr>subject = Some (manifest_desc ''sha256:2222''), layers = [blob_layer, boot_layer]\<rparr>"

definition orphan_manifest :: manifest where
  "orphan_manifest = \<lparr>subject = None, layers = [blob_layer, boot_layer]\<rparr>"

definition blobs :: "string \<Rightarrow> bytes option" where
  "blobs = map_of
     [(''sha256:aaaa'', ''manifest nydus''), (''sha256:bbbb'', ''manifest plain''),
      (''sha256:cccc'', ''manifest foreign''), (''sha256:dddd'', ''manifest orphan''),
      (''sha256:b007'', ''layer boot'')]"

definition decode_manifest :: "bytes \<Rightarrow> error + manifest" where
  "decode_manifest b =
     (case map_of
             [(''manifest nydus'', nydus_manifest), (''manifest plain'', plain_manifest),
              (''manifest foreign'', foreign_manifest), (''manifest orphan'', orphan_manifest)] b of
        Some m \<Rightarrow> Inr m
      | None \<Rightarrow> Inl (External 1))"

definition decode_index :: "bytes \<Rightarrow> error + index" where
  "decode_index b =
     (case map_of
             [(''index nydus'', \<lparr>manifests = [manifest_desc ''sha256:aaaa'', manifest_desc ''sha256:bbbb'']\<rparr>),
              (''index plain'', \<lparr>manifests = [manifest_desc ''sha256:bbbb'', manifest_desc ''sha256:aaaa'']\<rparr>),
              (''index empty'', \<lparr>manifests = []\<rparr>)]
             (rev (dropWhile (\<lambda>c. c = CHR '' '') (rev b))) of
        Some i \<Rightarrow> Inr i
      | None \<Rightarrow> Inl (External 1))"

definition untar :: "stream \<Rightarrow> tar_reader" where
  "untar s =
     (case map_of
             [(''layer boot'',
               \<lparr>entries = [\<lparr>hdr_Name = ''image'', body = \<lparr>content = [], readErr = None\<rparr>\<rparr>,
                           \<lparr>hdr_Name = ''image/image.boot'',
                            body = \<lparr>content = ''bootstrap'', readErr = None\<rparr>\<rparr>],
                ending = None\<rparr>),
              (''layer twice'',
               \<lparr>entries = [\<lparr>hdr_Name = ''image/image.blob'',
                            body = \<lparr>content = ''blob'', readErr = None\<rparr>\<rparr>,
                           \<lparr>hdr_Name = ''image/image.boot'',
                            body = \<lparr>content = ''first'', readErr = None\<rparr>\<rparr>,
                           \<lparr>hdr_Name = ''image/image.boot'',
                            body = \<lparr>content = ''second'', readErr = None\<rparr>\<rparr>],
                ending = None\<rparr>),
              (''layer other'',
               \<lparr>entries = [\<lparr>hdr_Name = ''image/image.blob'',
                            body = \<lparr>content = ''blob'', readErr = None\<rparr>\<rparr>],
                ending = None\<rparr>)]
             (content s) of
        Some t \<Rightarrow> t
      | None \<Rightarrow> \<lparr>entries = [], ending = Some (External 2)\<rparr>)"

definition registry :: "bytes \<Rightarrow> (string \<times> descriptor) list \<Rightarrow> env" where
  "registry referrers tags =
     \<lparr>fault = (\<lambda>h. None),
      next_fd = (\<lambda>h. 3),
      pid = 4242,
      now = (\<lambda>h. 1700000000 + length h),
      filepath_Dir = (\<lambda>p. strings_Join (butlast (strings_Split p CHR ''/'')) CHR ''/''),
      decompressStream = Inr,
      tar_NewReader = untar,
      remoteFetcher = (\<lambda>h. None),
      fetchReferrers = (\<lambda>h. Inr \<lparr>content = referrers, readErr = None\<rparr>),
      fetch = (\<lambda>h. case last h of
                       Fetch d \<Rightarrow>
                         (case blobs (digest d) of
                            Some b \<Rightarrow> Inr \<lparr>content = b, readErr = None\<rparr>
                          | None \<Rightarrow> Inl (External 404))
                     | c \<Rightarrow> Inl (External 400)),
      resolve = (\<lambda>h. case last h of
                         Resolve ref \<Rightarrow>
                           (case map_of tags ref of
                              Some d \<Rightarrow> Inr d
                            | None \<Rightarrow> Inl (External 404))
                       | c \<Rightarrow> Inl (External 400)),
      resolverFetcher = (\<lambda>h. None),
      retryWithPlainHTTP = (\<lambda>h. False),
      unmarshalIndex = decode_index,
      unmarshalManifest = decode_manifest,
      isNydusMetaLayer = (\<lambda>a. map_of a ''containerd.io/snapshot/nydus-bootstrap'' \<noteq> None),
      digestValidate = (\<lambda>d. take 7 d = ''sha256:'' \<and> 7 < length d),
      targetRefLabel = ''containerd.io/snapshot/cri.image-ref'',
      targetManifestDigestLabel = ''containerd.io/snapshot/cri.manifest-digest''\<rparr>"

text \<open>A registry that answers only once the client has been asked about plain HTTP, and
  a client that always says yes.\<close>

definition plain_http_only :: "env \<Rightarrow> env" where
  "plain_http_only e =
     e\<lparr>remoteFetcher := (\<lambda>h. if list_ex is_retry_call h then remoteFetcher e h
                              else Some (External 497)),
       resolve := (\<lambda>h. if list_ex is_retry_call h then resolve e h else Inl (External 497)),
       retryWithPlainHTTP := (\<lambda>h. True)\<rparr>"

definition start :: world where
  "start = \<lparr>files = (\<lambda>p. None), trace = []\<rparr>"

definition three_suffixes :: referrer where
  "three_suffixes = \<lparr>referrerTagSuffixes = [''-opt'', ''-nydus'', ''.custom'']\<rparr>"

text \<open>Three tags of the repository: the manifests under the first two refer to another
  image and to none, the manifest under the third to the image.\<close>

definition three_tags :: "(string \<times> descriptor) list" where
  "three_tags =
     [(''registry.example.com/repo:tag-opt'', manifest_desc ''sha256:cccc''),
      (''registry.example.com/repo:tag-nydus'', manifest_desc ''sha256:dddd''),
      (''registry.example.com/repo:tag.custom'', manifest_desc ''sha256:aaaa'')]"

text \<open>A referrer index of 11 bytes followed by 8 MiB of white space.\<close>

definition oversized_index :: bytes where
  "oversized_index = ''index nydus'' @ replicate 8388608 (CHR '' '')"

text \<open>Seven bytes that are no referrer index, followed by 8 MiB of white space.\<close>

definition oversized_garbage :: bytes where
  "oversized_garbage = ''garbage'' @ replicate 8388608 (CHR '' '')"

text \<open>A client that asks for plain HTTP after every failure.\<close>

definition always_retry :: "env \<Rightarrow> env" where
  "always_retry e = e\<lparr>retryWithPlainHTTP := (\<lambda>h. True)\<rparr>"

text \<open>The labels of a snapshot of the image.\<close>

definition image_labels :: "string \<Rightarrow> string option" where
  "image_labels =
     [''containerd.io/snapshot/cri.image-ref'' \<mapsto> ''registry.example.com/repo:tag'',
      ''containerd.io/snapshot/cri.manifest-digest'' \<mapsto> ''sha256:1111'']"

text \<open>The world after the metadata of the image was fetched to
  \<^verbatim>\<open>/var/lib/nydus/image.boot\<close> from the start.\<close>

definition fetched :: world where
  "fetched =
     \<lparr>files = (\<lambda>p. None)(''/var/lib/nydus/image.boot'' := Some ''bootstrap''),
      trace =
        [Lock ''/var/lib/nydus/image.boot'', Stat ''/var/lib/nydus/image.boot'',
         Fetcher ''registry.example.com/repo:tag'', FetchReferrers ''sha256:1111'',
         Fetch (manifest_desc ''sha256:aaaa''),
         ResolverFetcher ''registry.example.com/repo:tag'', Fetch boot_layer,
         OpenTmpfile ''/var/lib/nydus'', Write 3, Sync 3,
         Linkat 3 ''/var/lib/nydus/image.boot'', Close 3,
         Unlock ''/var/lib/nydus/image.boot'']\<rparr>"

section \<open>Properties of the writer\<close>

lemma scan_entries_no_match:
  "list_all (\<lambda>h. hdr_Name h \<noteq> source) es \<Longrightarrow>
   scan_entries env source target es end_err w =
     ((case end_err of
         None \<Rightarrow> Some (Errorf (''not found file '' @ source @ '' in tar''))
       | Some e \<Rightarrow> Some e), w)"
  by (induction es) (auto split: option.splits)

lemma staging_name_neq: "target @ ''.tmp.'' @ s \<noteq> target"
  by simp

lemma unix_Linkat_files:
  "unix_Linkat env fd data p w = (r, w') \<Longrightarrow>
   files w' = (if r = None then (files w)(p := Some data) else files w)"
  by (auto simp: unix_Linkat_def emit_def Let_def split: option.splits if_splits)

lemma retry_Do_retried:
  "fst last_attempt \<noteq> None \<Longrightarrow> \<exists>s. snd last_attempt = target @ ''.tmp.'' @ s \<Longrightarrow>
   retry_Do env target fd data n last_attempt w = ((r, p), w') \<Longrightarrow>
   files w' target = files w target \<and> (\<exists>s. p = target @ ''.tmp.'' @ s) \<and>
   (r = None \<longrightarrow> files w' p = Some data)"
proof (induction n arbitrary: last_attempt w)
  case 0
  then show ?case by auto
next
  case (Suc n)
  let ?w1 = "emit Now w"
  let ?p = "target @ ''.tmp.'' @ decimal (pid env) @ ''-'' @ decimal fd @ ''-''
              @ decimal (now env (trace ?w1))"
  obtain e w2 where L: "unix_Linkat env fd data ?p ?w1 = (e, w2)"
    by (cases "unix_Linkat env fd data ?p ?w1")
  have F: "files w2 = (if e = None then (files ?w1)(?p := Some data) else files ?w1)"
    using unix_Linkat_files [OF L] .
  have W1: "files ?w1 = files w" by (simp add: emit_def)
  show ?case
  proof (cases "e = Some EEXIST")
    case True
    with Suc.prems(3) L have R: "retry_Do env target fd data n (e, ?p) w2 = ((r, p), w')"
      by (simp add: Let_def)
    have N: "fst (e, ?p) \<noteq> None" using True by simp
    have S: "\<exists>s. snd (e, ?p) = target @ ''.tmp.'' @ s" by simp
    from Suc.IH [OF N S R] F W1 True show ?thesis by simp
  next
    case False
    with Suc.prems(3) L have "r = e" "p = ?p" "w' = w2"
      by (simp_all add: Let_def)
    with F W1 show ?thesis by auto
  qed
qed

lemma retry_Do_attempts:
  "retry_Do env target fd data (Suc n) last_attempt w = ((r, p), w') \<Longrightarrow>
   files w' target = files w target \<and> (\<exists>s. p = target @ ''.tmp.'' @ s) \<and>
   (r = None \<longrightarrow> files w' p = Some data)"
proof -
  assume A: "retry_Do env target fd data (Suc n) last_attempt w = ((r, p), w')"
  let ?w1 = "emit Now w"
  let ?p = "target @ ''.tmp.'' @ decimal (pid env) @ ''-'' @ decimal fd @ ''-''
              @ decimal (now env (trace ?w1))"
  obtain e w2 where L: "unix_Linkat env fd data ?p ?w1 = (e, w2)"
    by (cases "unix_Linkat env fd data ?p ?w1")
  have F: "files w2 = (if e = None then (files ?w1)(?p := Some data) else files ?w1)"
    using unix_Linkat_files [OF L] .
  have W1: "files ?w1 = files w" by (simp add: emit_def)
  show ?thesis
  proof (cases "e = Some EEXIST")
    case True
    with A L have R: "retry_Do env target fd data n (e, ?p) w2 = ((r, p), w')"
      by (simp add: Let_def)
    have N: "fst (e, ?p) \<noteq> None" using True by simp
    have S: "\<exists>s. snd (e, ?p) = target @ ''.tmp.'' @ s" by simp
    from retry_Do_retried [OF N S R] F W1 True show ?thesis by simp
  next
    case False
    with A L have "r = e" "p = ?p" "w' = w2"
      by (simp_all add: Let_def)
    with F W1 show ?thesis by auto
  qed
qed

lemma os_Remove_files:
  "p \<noteq> target \<Longrightarrow> files (os_Remove env p w) target = files w target"
  by (simp add: os_Remove_def emit_def Let_def split: option.splits)

lemma remove_tmpPath_files:
  "p \<noteq> target \<Longrightarrow> files (remove_tmpPath env p w) target = files w target"
  by (simp add: remove_tmpPath_def os_Remove_files)

lemma os_Rename_files:
  "os_Rename env p target w = (r, w') \<Longrightarrow>
   files w' target = (if r = None then files w p else files w target)"
  by (auto simp: os_Rename_def emit_def Let_def split: option.splits if_splits)

lemma stage_and_rename_files:
  assumes "stage_and_rename env target fd data w = (r, w')"
  shows "files w' target = (if r = None then Some data else files w target)"
proof -
  obtain e p w1 where R: "retry_Do env target fd data (Suc 2) (None, []) w = ((e, p), w1)"
    by (metis prod.exhaust)
  from retry_Do_attempts [OF R]
  have T: "files w1 target = files w target" and P: "p \<noteq> target"
    and D: "e = None \<Longrightarrow> files w1 p = Some data"
    by auto
  have R3: "retry_Do env target fd data 3 (None, []) w = ((e, p), w1)"
    using R by (simp add: numeral_3_eq_3)
  show ?thesis
  proof (cases e)
    case (Some x)
    with assms R3 have "r \<noteq> None" "w' = remove_tmpPath env p w1"
      by (auto simp: stage_and_rename_def)
    with T P show ?thesis by (auto simp: remove_tmpPath_files)
  next
    case None
    obtain e2 w2 where M: "os_Rename env p target w1 = (e2, w2)"
      by (cases "os_Rename env p target w1")
    from None assms R3 M have W: "w' = remove_tmpPath env p w2" and E: "(r = None) = (e2 = None)"
      by (auto simp: stage_and_rename_def split: option.splits)
    from os_Rename_files [OF M] D [OF None] T E W P show ?thesis
      by (simp add: remove_tmpPath_files)
  qed
qed

lemma write_and_link_files:
  assumes "write_and_link env target reader fd w = (r, w')"
  shows "files w' target = (if r = None then Some (content reader) else files w target)"
  using assms
  by (auto simp: write_and_link_def io_Copy_def file_Sync_def emit_def Let_def
           dest!: unix_Linkat_files stage_and_rename_files
           split: option.splits sum.splits prod.splits if_splits)

lemma atomicWrite_files:
  assumes "atomicWrite env target reader w = (r, w')"
  shows "files w' target = (if r = None then Some (content reader) else files w target)"
  using assms
  by (auto simp: atomicWrite_def unix_Open_TMPFILE_def emit_def Let_def
           dest!: write_and_link_files
           split: option.splits sum.splits prod.splits if_splits)

lemma scan_entries_first_match:
  "list_all (\<lambda>h. hdr_Name h \<noteq> source) pre \<Longrightarrow> hdr_Name first = source \<Longrightarrow>
   scan_entries env source target (pre @ first # rest) end_err w =
     atomicWrite env target (body first) w"
  by (induction pre) auto

text \<open>
  C8 (as amended). When the decompressed archive has no entry named \<open>entryName\<close>,
  \<open>Unpack\<close> makes no system call and leaves the world, and so \<open>targetPath\<close>, as it
  was: absent if it was absent, with its contents otherwise. It returns an error: the
  not-found error when the iteration over the entries ends with \<^verbatim>\<open>io.EOF\<close>, and the error
  of \<^verbatim>\<open>tr.Next()\<close> when the iteration fails.
\<close>

theorem Unpack_entry_absent:
  assumes "decompressStream env reader = Inr rdr"
    and "list_all (\<lambda>h. hdr_Name h \<noteq> entryName) (entries (tar_NewReader env rdr))"
  shows "Unpack env reader entryName targetPath w =
           ((case ending (tar_NewReader env rdr) of
               None \<Rightarrow> Some (Errorf (''not found file '' @ entryName @ '' in tar''))
             | Some e \<Rightarrow> Some e), w) \<and>
         fst (Unpack env reader entryName targetPath w) \<noteq> None \<and>
         files (snd (Unpack env reader entryName targetPath w)) targetPath = files w targetPath"
  using assms
  by (simp add: Unpack_def Let_def scan_entries_no_match split: option.splits)

theorem Unpack_entry_absent_witness:
  "Unpack (registry [] []) \<lparr>content = ''layer other'', readErr = None\<rparr>
     ''image/image.boot'' ''/var/lib/nydus/image.boot'' start =
     (Some (Errorf ''not found file image/image.boot in tar''), start) \<and>
   files start ''/var/lib/nydus/image.boot'' = None \<and>
   fst (Unpack (registry [] []) \<lparr>content = ''layer other'', readErr = None\<rparr>
     ''image/image.boot'' ''/var/lib/nydus/image.boot''
     (start\<lparr>files := (files start)(''/var/lib/nydus/image.boot'' := Some ''old'')\<rparr>)) =
     Some (Errorf ''not found file image/image.boot in tar'') \<and>
   files (snd (Unpack (registry [] []) \<lparr>content = ''layer other'', readErr = None\<rparr>
     ''image/image.boot'' ''/var/lib/nydus/image.boot''
     (start\<lparr>files := (files start)(''/var/lib/nydus/image.boot'' := Some ''old'')\<rparr>)))
     ''/var/lib/nydus/image.boot'' = Some ''old'' \<and>
   Unpack (registry [] []) \<lparr>content = ''not a tar'', readErr = None\<rparr>
     ''image/image.boot'' ''/var/lib/nydus/image.boot'' start = (Some (External 2), start)"
proof -
  let ?rd = "\<lparr>content = ''layer other'', readErr = None\<rparr>"
  have d: "decompressStream (registry [] []) ?rd = Inr ?rd"
    by (simp add: registry_def)
  have n: "list_all (\<lambda>h. hdr_Name h \<noteq> ''image/image.boot'')
             (entries (tar_NewReader (registry [] []) ?rd))"
    by (simp add: registry_def untar_def)
  have e: "ending (tar_NewReader (registry [] []) ?rd) = None"
    by (simp add: registry_def untar_def)
  let ?bad = "\<lparr>content = ''not a tar'', readErr = None\<rparr>"
  have d2: "decompressStream (registry [] []) ?bad = Inr ?bad"
    by (simp add: registry_def)
  have n2: "list_all (\<lambda>h. hdr_Name h \<noteq> ''image/image.boot'')
              (entries (tar_NewReader (registry [] []) ?bad))"
    by (simp add: registry_def untar_def)
  have e2: "ending (tar_NewReader (registry [] []) ?bad) = Some (External 2)"
    by (simp add: registry_def untar_def)
  from Unpack_entry_absent [OF d n, of "''/var/lib/nydus/image.boot''" start]
       Unpack_entry_absent [OF d n, of "''/var/lib/nydus/image.boot''"
         "start\<lparr>files := (files start)(''/var/lib/nydus/image.boot'' := Some ''old'')\<rparr>"]
       Unpack_entry_absent [OF d2 n2, of "''/var/lib/nydus/image.boot''" start]
       e e2
  show ?thesis
    by (simp add: prod_eq_iff start_def)
qed

text \<open>
  C8 as stated fails: nine bytes that are no archive have no entry of the name, yet the
  error returned is the one \<^verbatim>\<open>tr.Next()\<close> ends with, not the not-found error.
\<close>

theorem Unpack_not_a_tar:
  "decompressStream (registry [] []) \<lparr>content = ''not a tar'', readErr = None\<rparr> =
     Inr \<lparr>content = ''not a tar'', readErr = None\<rparr> \<and>
   list_all (\<lambda>h. hdr_Name h \<noteq> ''image/image.boot'')
     (entries (tar_NewReader (registry [] []) \<lparr>content = ''not a tar'', readErr = None\<rparr>)) \<and>
   Unpack (registry [] []) \<lparr>content = ''not a tar'', readErr = None\<rparr>
     ''image/image.boot'' ''/var/lib/nydus/image.boot'' start = (Some (External 2), start) \<and>
   External 2 \<noteq> Errorf ''not found file image/image.boot in tar''"
  by (simp add: Unpack_def registry_def untar_def Let_def)

text \<open>
  C10. When the archive has an entry named \<open>entryName\<close>, whatever follows the first such
  entry (further entries of that name included) has no part in the outcome: \<open>Unpack\<close>
  does what \<open>atomicWrite\<close> does with the first entry's bytes and stops. When it
  succeeds \<open>targetPath\<close> holds exactly those bytes; when it fails \<open>targetPath\<close> holds
  what it held.
\<close>

theorem Unpack_first_entry_only:
  assumes "decompressStream env reader = Inr rdr"
    and "entries (tar_NewReader env rdr) = pre @ first # rest"
    and "list_all (\<lambda>h. hdr_Name h \<noteq> entryName) pre"
    and "hdr_Name first = entryName"
  shows "Unpack env reader entryName targetPath w =
           atomicWrite env targetPath (body first) w \<and>
         files (snd (Unpack env reader entryName targetPath w)) targetPath =
           (if fst (Unpack env reader entryName targetPath w) = None
            then Some (content (body first)) else files w targetPath)"
proof -
  have U: "Unpack env reader entryName targetPath w =
             atomicWrite env targetPath (body first) w"
    using assms by (simp add: Unpack_def Let_def scan_entries_first_match)
  obtain res w' where A: "atomicWrite env targetPath (body first) w = (res, w')"
    by (cases "atomicWrite env targetPath (body first) w")
  from atomicWrite_files [OF A] U A show ?thesis by simp
qed

theorem Unpack_first_entry_only_witness:
  "fst (Unpack (registry [] []) \<lparr>content = ''layer twice'', readErr = None\<rparr>
     ''image/image.boot'' ''/var/lib/nydus/image.boot'' start) = None \<and>
   files (snd (Unpack (registry [] []) \<lparr>content = ''layer twice'', readErr = None\<rparr>
     ''image/image.boot'' ''/var/lib/nydus/image.boot'' start))
     ''/var/lib/nydus/image.boot'' = Some ''first'' \<and>
   fst (Unpack (registry [] []) \<lparr>content = ''layer twice'', readErr = None\<rparr>
     ''image/image.boot'' ''/var/lib/nydus/image.boot''
     (start\<lparr>files := (files start)(''/var/lib/nydus/image.boot'' := Some ''old'')\<rparr>)) = None \<and>
   files (snd (Unpack (registry [] []) \<lparr>content = ''layer twice'', readErr = None\<rparr>
     ''image/image.boot'' ''/var/lib/nydus/image.boot''
     (start\<lparr>files := (files start)(''/var/lib/nydus/image.boot'' := Some ''old'')\<rparr>)))
     ''/var/lib/nydus/image.boot'' = Some ''first''"
proof -
  let ?rd = "\<lparr>content = ''layer twice'', readErr = None\<rparr>"
  let ?e1 = "\<lparr>hdr_Name = ''image/image.blob'', body = \<lparr>content = ''blob'', readErr = None\<rparr>\<rparr>"
  let ?e2 = "\<lparr>hdr_Name = ''image/image.boot'', body = \<lparr>content = ''first'', readErr = None\<rparr>\<rparr>"
  let ?e3 = "\<lparr>hdr_Name = ''image/image.boot'', body = \<lparr>content = ''second'', readErr = None\<rparr>\<rparr>"
  let ?old = "start\<lparr>files := (files start)(''/var/lib/nydus/image.boot'' := Some ''old'')\<rparr>"
  have d: "decompressStream (registry [] []) ?rd = Inr ?rd"
    by (simp add: registry_def)
  have es: "entries (tar_NewReader (registry [] []) ?rd) = [?e1] @ ?e2 # [?e3]"
    by (simp add: registry_def untar_def)
  have n: "list_all (\<lambda>h. hdr_Name h \<noteq> ''image/image.boot'') [?e1]"
    by simp
  have m: "hdr_Name ?e2 = ''image/image.boot''"
    by simp
  note T = Unpack_first_entry_only [OF d es n m, of "''/var/lib/nydus/image.boot''"]
  have a1: "fst (atomicWrite (registry [] []) ''/var/lib/nydus/image.boot'' (body ?e2) start) = None"
    by (simp add: atomicWrite_def unix_Open_TMPFILE_def write_and_link_def io_Copy_def
          file_Sync_def unix_Linkat_def emit_def registry_def start_def Let_def)
  have a2: "fst (atomicWrite (registry [] []) ''/var/lib/nydus/image.boot'' (body ?e2) ?old) = None"
    by (simp add: atomicWrite_def unix_Open_TMPFILE_def write_and_link_def io_Copy_def
          file_Sync_def unix_Linkat_def stage_and_rename_def os_Rename_def remove_tmpPath_def
          os_Remove_def emit_def registry_def start_def Let_def numeral_3_eq_3)
  have f1: "fst (Unpack (registry [] []) ?rd ''image/image.boot'' ''/var/lib/nydus/image.boot'' start) = None"
    using conjunct1 [OF T [of start]] a1 by simp
  have f2: "fst (Unpack (registry [] []) ?rd ''image/image.boot'' ''/var/lib/nydus/image.boot'' ?old) = None"
    using conjunct1 [OF T [of ?old]] a2 by simp
  have g1: "files (snd (Unpack (registry [] []) ?rd ''image/image.boot'' ''/var/lib/nydus/image.boot'' start))
              ''/var/lib/nydus/image.boot'' = Some ''first''"
    using conjunct2 [OF T [of start]] f1 by simp
  have g2: "files (snd (Unpack (registry [] []) ?rd ''image/image.boot'' ''/var/lib/nydus/image.boot'' ?old))
              ''/var/lib/nydus/image.boot'' = Some ''first''"
    using conjunct2 [OF T [of ?old]] f2 by simp
  from f1 g1 f2 g2 show ?thesis
    by (intro conjI)
qed

section \<open>Properties of the resolver\<close>

lemmas registry_calls =
  remote_Fetcher_def fetcher_FetchReferrers_def fetcher_Fetch_def resolver_Resolve_def
  resolver_Fetcher_def remote_RetryWithPlainHTTP_def emit_def

text \<open>
  C3. \<open>checkReferrerTagBased\<close> splits the reference at its colons and takes the last piece
  as the tag. A digest-only reference has a colon inside its digest, so no error is
  returned before the loop: the hexadecimal part of the digest becomes the base tag and one
  candidate per suffix is resolved. With a registry that knows none of them the call ends
  with \<^verbatim>\<open>no tag-based referrer found\<close>.
\<close>

theorem checkReferrerTagBased_digest_only:
  "checkReferrerTagBased (registry [] []) three_suffixes
     ''registry.example.com/repo@sha256:abc123def456'' ''sha256:1111'' start =
     (Inl (Errorf ''no tag-based referrer found''),
      start\<lparr>trace := [Resolve ''registry.example.com/repo@sha256:abc123def456-opt'',
                       Resolve ''registry.example.com/repo@sha256:abc123def456-nydus'',
                       Resolve ''registry.example.com/repo@sha256:abc123def456.custom'']\<rparr>)"
  by (simp add: checkReferrerTagBased_def validateTagBasedReferrer_def registry_calls
        registry_def start_def three_suffixes_def Let_def)

text \<open>
  C4. A reference with neither tag nor digest has no colon (or only the colon of a port):
  \<open>checkReferrerTagBased\<close> returns the error \<^verbatim>\<open>invalid reference format\<close> and tries no
  candidate, or takes what follows the port's colon as the tag. It never uses
  \<^verbatim>\<open>latest\<close>.
\<close>

theorem checkReferrerTagBased_untagged:
  "checkReferrerTagBased env r ''registry.example.com/repo'' manifestDigest w =
     (Inl (Errorf ''invalid reference format''), w) \<and>
   checkReferrerTagBased (registry [] []) three_suffixes
     ''registry.example.com:5000/repo'' ''sha256:1111'' start =
     (Inl (Errorf ''no tag-based referrer found''),
      start\<lparr>trace := [Resolve ''registry.example.com:5000/repo-opt'',
                       Resolve ''registry.example.com:5000/repo-nydus'',
                       Resolve ''registry.example.com:5000/repo.custom'']\<rparr>)"
  by (simp add: checkReferrerTagBased_def validateTagBasedReferrer_def registry_calls
        registry_def start_def three_suffixes_def Let_def)

text \<open>
  C5. For a reference with a tag and a digest, the last piece after a colon is the
  hexadecimal part of the digest: the candidates are \<^verbatim>\<open>repo:tag@sha256:hex\<close> followed by
  each suffix, not \<^verbatim>\<open>repo:tag\<close> followed by each suffix.
\<close>

theorem checkReferrerTagBased_tag_and_digest:
  "checkReferrerTagBased (registry [] []) three_suffixes
     ''registry.example.com/repo:tag@sha256:abc123def456'' ''sha256:1111'' start =
     (Inl (Errorf ''no tag-based referrer found''),
      start\<lparr>trace := [Resolve ''registry.example.com/repo:tag@sha256:abc123def456-opt'',
                       Resolve ''registry.example.com/repo:tag@sha256:abc123def456-nydus'',
                       Resolve ''registry.example.com/repo:tag@sha256:abc123def456.custom'']\<rparr>)"
  by (simp add: checkReferrerTagBased_def validateTagBasedReferrer_def registry_calls
        registry_def start_def three_suffixes_def Let_def)

text \<open>
  C1. When the referrer index (read through the 8 MiB limit) decodes to a list with at
  least one manifest, the first listed manifest is fetched; when it decodes to a manifest
  with layers, then: if its last layer carries the nydus metadata annotation, the standards
  path and \<open>checkReferrer\<close> return that layer, after the three calls
  \<^verbatim>\<open>Fetcher\<close>, \<^verbatim>\<open>FetchReferrers\<close>, \<^verbatim>\<open>Fetch\<close> of the first manifest; if it does not,
  the standards path fails with \<^verbatim>\<open>invalid nydus manifest\<close>, the resolution continues with
  \<open>checkReferrerTagBased\<close>, and a referrer found there is the result of
  \<open>checkReferrer\<close>.
\<close>

theorem standard_first_manifest_last_layer:
  assumes "remoteFetcher env (trace w @ [Fetcher ref]) = None"
    and "fetchReferrers env (trace w @ [Fetcher ref, FetchReferrers manifestDigest]) = Inr rc"
    and "io_ReadAll (io_LimitReader rc maxManifestIndexSize) = Inr bytes"
    and "unmarshalIndex env bytes = Inr idx"
    and "manifests idx = first_manifest # others"
    and "fetch env (trace w @ [Fetcher ref, FetchReferrers manifestDigest, Fetch first_manifest])
           = Inr rc2"
    and "io_ReadAll rc2 = Inr bytes2"
    and "unmarshalManifest env bytes2 = Inr mf"
    and "layers mf \<noteq> []"
    and "w3 = w\<lparr>trace := trace w @ [Fetcher ref, FetchReferrers manifestDigest, Fetch first_manifest]\<rparr>"
  shows "(isNydusMetaLayer env (annotations (last (layers mf))) \<longrightarrow>
            checkReferrerStandard env ref manifestDigest w = (Inr (last (layers mf)), w3) \<and>
            checkReferrer env r ref manifestDigest w = (Inr (last (layers mf)), w3)) \<and>
         (\<not> isNydusMetaLayer env (annotations (last (layers mf))) \<longrightarrow>
            checkReferrerStandard env ref manifestDigest w =
              (Inl (Errorf ''invalid nydus manifest''), w3) \<and>
            checkReferrer_handle env r ref manifestDigest w =
              checkReferrerTagBased env r ref manifestDigest w3 \<and>
            (\<forall>desc w4. checkReferrerTagBased env r ref manifestDigest w3 = (Inr desc, w4) \<longrightarrow>
               checkReferrer env r ref manifestDigest w = (Inr desc, w4)))"
proof -
  have S: "checkReferrerStandard env ref manifestDigest w =
             (if isNydusMetaLayer env (annotations (last (layers mf)))
              then Inr (last (layers mf)) else Inl (Errorf ''invalid nydus manifest''), w3)"
    using assms by (simp add: checkReferrerStandard_def registry_calls Let_def)
  show ?thesis
    by (simp add: S checkReferrer_def checkReferrer_handle_def)
qed

theorem standard_first_manifest_last_layer_witness:
  "isNydusMetaLayer (registry ''index nydus'' []) (annotations (last (layers nydus_manifest))) \<and>
   checkReferrer (registry ''index nydus'' []) three_suffixes
     ''registry.example.com/repo:tag'' ''sha256:1111'' start =
     (Inr boot_layer,
      start\<lparr>trace := [Fetcher ''registry.example.com/repo:tag'', FetchReferrers ''sha256:1111'',
                       Fetch (manifest_desc ''sha256:aaaa'')]\<rparr>) \<and>
   \<not> isNydusMetaLayer (registry ''index plain'' []) (annotations (last (layers plain_manifest))) \<and>
   checkReferrer_handle (registry ''index plain'' []) three_suffixes
     ''registry.example.com/repo:tag'' ''sha256:1111'' start =
     checkReferrerTagBased (registry ''index plain'' []) three_suffixes
       ''registry.example.com/repo:tag'' ''sha256:1111''
       (start\<lparr>trace := [Fetcher ''registry.example.com/repo:tag'', FetchReferrers ''sha256:1111'',
                         Fetch (manifest_desc ''sha256:bbbb'')]\<rparr>)"
proof -
  let ?ref = "''registry.example.com/repo:tag''"
  let ?A = "registry ''index nydus'' []"
  let ?B = "registry ''index plain'' []"
  have a1: "remoteFetcher ?A (trace start @ [Fetcher ?ref]) = None"
    by (simp add: registry_def)
  have a2: "fetchReferrers ?A (trace start @ [Fetcher ?ref, FetchReferrers ''sha256:1111''])
              = Inr \<lparr>content = ''index nydus'', readErr = None\<rparr>"
    by (simp add: registry_def)
  have a3: "io_ReadAll (io_LimitReader \<lparr>content = ''index nydus'', readErr = None\<rparr>
              maxManifestIndexSize) = Inr ''index nydus''"
    by (simp add: io_ReadAll_def io_LimitReader_def maxManifestIndexSize_def)
  have a4: "unmarshalIndex ?A ''index nydus'' =
              Inr \<lparr>manifests = [manifest_desc ''sha256:aaaa'', manifest_desc ''sha256:bbbb'']\<rparr>"
    by (simp add: registry_def decode_index_def)
  have a5: "manifests \<lparr>manifests = [manifest_desc ''sha256:aaaa'', manifest_desc ''sha256:bbbb'']\<rparr>
              = manifest_desc ''sha256:aaaa'' # [manifest_desc ''sha256:bbbb'']"
    by simp
  have a6: "fetch ?A (trace start @ [Fetcher ?ref, FetchReferrers ''sha256:1111'',
              Fetch (manifest_desc ''sha256:aaaa'')]) = Inr \<lparr>content = ''manifest nydus'', readErr = None\<rparr>"
    by (simp add: registry_def blobs_def manifest_desc_def)
  have a7: "io_ReadAll \<lparr>content = ''manifest nydus'', readErr = None\<rparr> = Inr ''manifest nydus''"
    by (simp add: io_ReadAll_def)
  have a8: "unmarshalManifest ?A ''manifest nydus'' = Inr nydus_manifest"
    by (simp add: registry_def decode_manifest_def)
  have a9: "layers nydus_manifest \<noteq> []"
    by (simp add: nydus_manifest_def)
  have aM: "isNydusMetaLayer ?A (annotations (last (layers nydus_manifest)))"
    by (simp add: registry_def nydus_manifest_def boot_layer_def)
  have aL: "last (layers nydus_manifest) = boot_layer"
    by (simp add: nydus_manifest_def)
  have b1: "remoteFetcher ?B (trace start @ [Fetcher ?ref]) = None"
    by (simp add: registry_def)
  have b2: "fetchReferrers ?B (trace start @ [Fetcher ?ref, FetchReferrers ''sha256:1111''])
              = Inr \<lparr>content = ''index plain'', readErr = None\<rparr>"
    by (simp add: registry_def)
  have b3: "io_ReadAll (io_LimitReader \<lparr>content = ''index plain'', readErr = None\<rparr>
              maxManifestIndexSize) = Inr ''index plain''"
    by (simp add: io_ReadAll_def io_LimitReader_def maxManifestIndexSize_def)
  have b4: "unmarshalIndex ?B ''index plain'' =
              Inr \<lparr>manifests = [manifest_desc ''sha256:bbbb'', manifest_desc ''sha256:aaaa'']\<rparr>"
    by (simp add: registry_def decode_index_def)
  have b5: "manifests \<lparr>manifests = [manifest_desc ''sha256:bbbb'', manifest_desc ''sha256:aaaa'']\<rparr>
              = manifest_desc ''sha256:bbbb'' # [manifest_desc ''sha256:aaaa'']"
    by simp
  have b6: "fetch ?B (trace start @ [Fetcher ?ref, FetchReferrers ''sha256:1111'',
              Fetch (manifest_desc ''sha256:bbbb'')]) = Inr \<lparr>content = ''manifest plain'', readErr = None\<rparr>"
    by (simp add: registry_def blobs_def manifest_desc_def)
  have b7: "io_ReadAll \<lparr>content = ''manifest plain'', readErr = None\<rparr> = Inr ''manifest plain''"
    by (simp add: io_ReadAll_def)
  have b8: "unmarshalManifest ?B ''manifest plain'' = Inr plain_manifest"
    by (simp add: registry_def decode_manifest_def)
  have b9: "layers plain_manifest \<noteq> []"
    by (simp add: plain_manifest_def)
  have bM: "\<not> isNydusMetaLayer ?B (annotations (last (layers plain_manifest)))"
    by (simp add: registry_def plain_manifest_def blob_layer_def)
  have t: "trace start = []"
    by (simp add: start_def)
  from standard_first_manifest_last_layer [OF a1 a2 a3 a4 a5 a6 a7 a8 a9 refl, of three_suffixes]
       aM aL t
  have A: "checkReferrer ?A three_suffixes ?ref ''sha256:1111'' start =
     (Inr boot_layer,
      start\<lparr>trace := [Fetcher ?ref, FetchReferrers ''sha256:1111'',
                       Fetch (manifest_desc ''sha256:aaaa'')]\<rparr>)"
    by simp
  from standard_first_manifest_last_layer [OF b1 b2 b3 b4 b5 b6 b7 b8 b9 refl, of three_suffixes]
       bM t
  have B: "checkReferrer_handle ?B three_suffixes ?ref ''sha256:1111'' start =
     checkReferrerTagBased ?B three_suffixes ?ref ''sha256:1111''
       (start\<lparr>trace := [Fetcher ?ref, FetchReferrers ''sha256:1111'',
                         Fetch (manifest_desc ''sha256:bbbb'')]\<rparr>)"
    by simp
  from aM A bM B show ?thesis
    by (intro conjI)
qed

text \<open>
  C2. A candidate whose manifest has no subject, or a subject whose digest is not the
  expected one, is rejected by \<open>validateTagBasedReferrer\<close> with the error
  \<^verbatim>\<open>not a referrer for expected subject\<close>, whatever its layers are, and the loop over the
  suffixes goes on with the next candidate.
\<close>

theorem validateTagBasedReferrer_subject:
  assumes "resolve env (trace w @ [Resolve candidateRef]) = Inr desc"
    and "resolverFetcher env (trace w @ [Resolve candidateRef, ResolverFetcher candidateRef]) = None"
    and "fetch env (trace w @ [Resolve candidateRef, ResolverFetcher candidateRef, Fetch desc])
           = Inr rc"
    and "io_ReadAll rc = Inr bytes"
    and "unmarshalManifest env bytes = Inr mf"
    and "subject mf = None \<or> (\<exists>s. subject mf = Some s \<and> digest s \<noteq> expected)"
    and "candidateRef = baseRef @ '':'' @ baseTag @ suffix"
    and "w3 = w\<lparr>trace := trace w @ [Resolve candidateRef, ResolverFetcher candidateRef, Fetch desc]\<rparr>"
  shows "validateTagBasedReferrer env candidateRef expected w =
           (Inl (Errorf ''not a referrer for expected subject''), w3) \<and>
         try_suffixes env baseRef baseTag expected (suffix # rest) w =
           try_suffixes env baseRef baseTag expected rest w3"
proof -
  have V: "validateTagBasedReferrer env candidateRef expected w =
           (Inl (Errorf ''not a referrer for expected subject''), w3)"
    using assms(1-6,8)
    by (auto simp: validateTagBasedReferrer_def registry_calls Let_def)
  with assms(7) show ?thesis
    by (simp add: Let_def)
qed

theorem validateTagBasedReferrer_subject_witness:
  "isNydusMetaLayer (registry [] three_tags) (annotations (last (layers foreign_manifest))) \<and>
   validateTagBasedReferrer (registry [] three_tags) ''registry.example.com/repo:tag-opt''
     ''sha256:1111'' start =
     (Inl (Errorf ''not a referrer for expected subject''),
      start\<lparr>trace := [Resolve ''registry.example.com/repo:tag-opt'',
                       ResolverFetcher ''registry.example.com/repo:tag-opt'',
                       Fetch (manifest_desc ''sha256:cccc'')]\<rparr>) \<and>
   try_suffixes (registry [] three_tags) ''registry.example.com/repo'' ''tag'' ''sha256:1111''
     [''-opt'', ''-nydus'', ''.custom''] start =
   try_suffixes (registry [] three_tags) ''registry.example.com/repo'' ''tag'' ''sha256:1111''
     [''-nydus'', ''.custom'']
     (start\<lparr>trace := [Resolve ''registry.example.com/repo:tag-opt'',
                       ResolverFetcher ''registry.example.com/repo:tag-opt'',
                       Fetch (manifest_desc ''sha256:cccc'')]\<rparr>) \<and>
   isNydusMetaLayer (registry [] three_tags) (annotations (last (layers orphan_manifest))) \<and>
   fst (validateTagBasedReferrer (registry [] three_tags) ''registry.example.com/repo:tag-nydus''
     ''sha256:1111'' start) = Inl (Errorf ''not a referrer for expected subject'')"
proof -
  let ?E = "registry [] three_tags"
  let ?c = "''registry.example.com/repo:tag-opt''"
  let ?d = "''registry.example.com/repo:tag-nydus''"
  have t: "trace start = []"
    by (simp add: start_def)
  have a1: "resolve ?E (trace start @ [Resolve ?c]) = Inr (manifest_desc ''sha256:cccc'')"
    by (simp add: registry_def three_tags_def t)
  have a2: "resolverFetcher ?E (trace start @ [Resolve ?c, ResolverFetcher ?c]) = None"
    by (simp add: registry_def)
  have a3: "fetch ?E (trace start @ [Resolve ?c, ResolverFetcher ?c, Fetch (manifest_desc ''sha256:cccc'')])
              = Inr \<lparr>content = ''manifest foreign'', readErr = None\<rparr>"
    by (simp add: registry_def blobs_def manifest_desc_def)
  have a4: "io_ReadAll \<lparr>content = ''manifest foreign'', readErr = None\<rparr> = Inr ''manifest foreign''"
    by (simp add: io_ReadAll_def)
  have a5: "unmarshalManifest ?E ''manifest foreign'' = Inr foreign_manifest"
    by (simp add: registry_def decode_manifest_def)
  have a6: "subject foreign_manifest = None \<or>
            (\<exists>s. subject foreign_manifest = Some s \<and> digest s \<noteq> ''sha256:1111'')"
    by (simp add: foreign_manifest_def manifest_desc_def)
  have a7: "?c = ''registry.example.com/repo'' @ '':'' @ ''tag'' @ ''-opt''"
    by simp
  have aM: "isNydusMetaLayer ?E (annotations (last (layers foreign_manifest)))"
    by (simp add: registry_def foreign_manifest_def boot_layer_def)
  have b1: "resolve ?E (trace start @ [Resolve ?d]) = Inr (manifest_desc ''sha256:dddd'')"
    by (simp add: registry_def three_tags_def t)
  have b2: "resolverFetcher ?E (trace start @ [Resolve ?d, ResolverFetcher ?d]) = None"
    by (simp add: registry_def)
  have b3: "fetch ?E (trace start @ [Resolve ?d, ResolverFetcher ?d, Fetch (manifest_desc ''sha256:dddd'')])
              = Inr \<lparr>content = ''manifest orphan'', readErr = None\<rparr>"
    by (simp add: registry_def blobs_def manifest_desc_def)
  have b4: "io_ReadAll \<lparr>content = ''manifest orphan'', readErr = None\<rparr> = Inr ''manifest orphan''"
    by (simp add: io_ReadAll_def)
  have b5: "unmarshalManifest ?E ''manifest orphan'' = Inr orphan_manifest"
    by (simp add: registry_def decode_manifest_def)
  have b6: "subject orphan_manifest = None \<or>
            (\<exists>s. subject orphan_manifest = Some s \<and> digest s \<noteq> ''sha256:1111'')"
    by (simp add: orphan_manifest_def)
  have b7: "?d = ''registry.example.com/repo'' @ '':'' @ ''tag'' @ ''-nydus''"
    by simp
  have bM: "isNydusMetaLayer ?E (annotations (last (layers orphan_manifest)))"
    by (simp add: registry_def orphan_manifest_def boot_layer_def)
  note A = validateTagBasedReferrer_subject [OF a1 a2 a3 a4 a5 a6 a7 refl, of "[''-nydus'', ''.custom'']"]
  note B = validateTagBasedReferrer_subject [OF b1 b2 b3 b4 b5 b6 b7 refl, of "[]"]
  have A1: "validateTagBasedReferrer ?E ?c ''sha256:1111'' start =
     (Inl (Errorf ''not a referrer for expected subject''),
      start\<lparr>trace := [Resolve ?c, ResolverFetcher ?c, Fetch (manifest_desc ''sha256:cccc'')]\<rparr>)"
    using conjunct1 [OF A] t by simp
  have A2: "try_suffixes ?E ''registry.example.com/repo'' ''tag'' ''sha256:1111''
     [''-opt'', ''-nydus'', ''.custom''] start =
   try_suffixes ?E ''registry.example.com/repo'' ''tag'' ''sha256:1111''
     [''-nydus'', ''.custom'']
     (start\<lparr>trace := [Resolve ?c, ResolverFetcher ?c, Fetch (manifest_desc ''sha256:cccc'')]\<rparr>)"
    using conjunct2 [OF A] t by simp
  have B1: "fst (validateTagBasedReferrer ?E ?d ''sha256:1111'' start) =
              Inl (Errorf ''not a referrer for expected subject'')"
    using conjunct1 [OF B] by simp
  from aM A1 A2 bM B1 show ?thesis
    by (intro conjI)
qed

lemma tag_steps_Nil: "tag_steps cs []"
  by (cases cs) simp_all

lemma checkReferrerStandard_steps:
  "checkReferrerStandard env ref manifestDigest w = (res, w') \<Longrightarrow>
   \<exists>a. trace w' = trace w @ a \<and> standard_steps ref manifestDigest a"
  by (auto simp: checkReferrerStandard_def registry_calls Let_def standard_steps_def
           split: option.splits sum.splits list.splits if_splits)

lemma validateTagBasedReferrer_steps:
  "validateTagBasedReferrer env candidateRef expected w = (res, w') \<Longrightarrow>
   \<exists>a. trace w' = trace w @ a \<and> candidate_steps candidateRef a"
  by (auto simp: validateTagBasedReferrer_def registry_calls Let_def candidate_steps_def
           split: option.splits sum.splits list.splits if_splits)

lemma try_suffixes_steps:
  "try_suffixes env baseRef baseTag manifestDigest suffixes w = (res, w') \<Longrightarrow>
   \<exists>b. trace w' = trace w @ b \<and>
       tag_steps (map (\<lambda>suffix. baseRef @ '':'' @ baseTag @ suffix) suffixes) b"
proof (induction suffixes arbitrary: w)
  case Nil
  then show ?case by simp
next
  case (Cons suffix rest)
  let ?c = "baseRef @ '':'' @ baseTag @ suffix"
  obtain v w1 where V: "validateTagBasedReferrer env ?c manifestDigest w = (v, w1)"
    by (cases "validateTagBasedReferrer env ?c manifestDigest w")
  from validateTagBasedReferrer_steps [OF V]
  obtain a where A: "trace w1 = trace w @ a" "candidate_steps ?c a"
    by blast
  show ?case
  proof (cases v)
    case (Inl err)
    with Cons.prems V have "try_suffixes env baseRef baseTag manifestDigest rest w1 = (res, w')"
      by (simp add: Let_def)
    from Cons.IH [OF this]
    obtain b where B: "trace w' = trace w1 @ b"
        "tag_steps (map (\<lambda>suffix. baseRef @ '':'' @ baseTag @ suffix) rest) b"
      by blast
    from A B have "trace w' = trace w @ (a @ b)" by simp
    moreover from A B
    have "tag_steps (map (\<lambda>suffix. baseRef @ '':'' @ baseTag @ suffix) (suffix # rest)) (a @ b)"
      by auto
    ultimately show ?thesis by blast
  next
    case (Inr desc)
    with Cons.prems V have "w' = w1" by (simp add: Let_def)
    with A have "trace w' = trace w @ (a @ [])" by simp
    moreover from A
    have "tag_steps (map (\<lambda>suffix. baseRef @ '':'' @ baseTag @ suffix) (suffix # rest)) (a @ [])"
      using tag_steps_Nil by (simp del: append_Nil2) blast
    ultimately show ?thesis by blast
  qed
qed

lemma checkReferrerTagBased_steps:
  assumes "checkReferrerTagBased env r ref manifestDigest w = (res, w')"
  shows "\<exists>b. trace w' = trace w @ b \<and> tag_steps (candidateRefs r ref) b"
proof (cases "length (strings_Split ref CHR '':'') < 2")
  case True
  with assms have "w' = w" by (simp add: checkReferrerTagBased_def Let_def)
  then have "trace w' = trace w @ []" by simp
  with tag_steps_Nil show ?thesis by blast
next
  case False
  with assms try_suffixes_steps show ?thesis
    by (simp add: checkReferrerTagBased_def candidateRefs_def Let_def)
qed

lemma checkReferrer_handle_steps:
  assumes "checkReferrer_handle env r ref manifestDigest w = (res, w')"
  shows "\<exists>c. trace w' = trace w @ c \<and> run_steps r ref manifestDigest c"
proof -
  obtain s w1 where S: "checkReferrerStandard env ref manifestDigest w = (s, w1)"
    by (cases "checkReferrerStandard env ref manifestDigest w")
  from checkReferrerStandard_steps [OF S]
  obtain a where A: "trace w1 = trace w @ a" "standard_steps ref manifestDigest a"
    by blast
  show ?thesis
  proof (cases s)
    case (Inl err)
    with assms S have "checkReferrerTagBased env r ref manifestDigest w1 = (res, w')"
      by (simp add: checkReferrer_handle_def)
    from checkReferrerTagBased_steps [OF this]
    obtain b where B: "trace w' = trace w1 @ b" "tag_steps (candidateRefs r ref) b"
      by blast
    from A B have "trace w' = trace w @ (a @ b)" by simp
    moreover from A B have "run_steps r ref manifestDigest (a @ b)"
      unfolding run_steps_def by blast
    ultimately show ?thesis by blast
  next
    case (Inr desc)
    with assms S have "w' = w1" by (simp add: checkReferrer_handle_def)
    with A have "trace w' = trace w @ (a @ [])" by simp
    moreover from A tag_steps_Nil have "run_steps r ref manifestDigest (a @ [])"
      unfolding run_steps_def by blast
    ultimately show ?thesis by blast
  qed
qed

text \<open>
  C6. When the two-path resolution (the closure \<^verbatim>\<open>handle\<close>) fails and the client answers
  \<^verbatim>\<open>RetryWithPlainHTTP\<close> with yes, \<open>checkReferrer\<close> returns whatever a second run of the
  whole resolution returns, a failure included: the client is not asked again. Between
  start and end the calls are those of one run, the one consultation of the client, and
  those of a second run; within a run every step is made at most once.
\<close>

theorem checkReferrer_retry:
  assumes "checkReferrer_handle env r ref manifestDigest w = (Inl err, w1)"
    and "retryWithPlainHTTP env (trace w1 @ [RetryWithPlainHTTP ref err])"
  shows "checkReferrer env r ref manifestDigest w =
           checkReferrer_handle env r ref manifestDigest (emit (RetryWithPlainHTTP ref err) w1) \<and>
         (\<exists>first_run second_run.
            trace (snd (checkReferrer env r ref manifestDigest w)) =
              trace w @ first_run @ [RetryWithPlainHTTP ref err] @ second_run \<and>
            run_steps r ref manifestDigest first_run \<and>
            run_steps r ref manifestDigest second_run)"
proof -
  let ?w2 = "emit (RetryWithPlainHTTP ref err) w1"
  have E: "checkReferrer env r ref manifestDigest w =
           checkReferrer_handle env r ref manifestDigest ?w2"
    using assms by (simp add: checkReferrer_def remote_RetryWithPlainHTTP_def emit_def Let_def)
  from checkReferrer_handle_steps [OF assms(1)]
  obtain a where A: "trace w1 = trace w @ a" "run_steps r ref manifestDigest a"
    by blast
  have "checkReferrer_handle env r ref manifestDigest ?w2 =
          (fst (checkReferrer_handle env r ref manifestDigest ?w2),
           snd (checkReferrer_handle env r ref manifestDigest ?w2))"
    by simp
  from checkReferrer_handle_steps [OF this]
  obtain b where B: "trace (snd (checkReferrer_handle env r ref manifestDigest ?w2)) =
                       trace ?w2 @ b" "run_steps r ref manifestDigest b"
    by blast
  from A B E have "trace (snd (checkReferrer env r ref manifestDigest w)) =
                     trace w @ a @ [RetryWithPlainHTTP ref err] @ b"
    by (simp add: emit_def)
  with A B E show ?thesis by blast
qed

theorem checkReferrer_retry_witness:
  "checkReferrer (plain_http_only (registry ''index nydus'' [])) three_suffixes
     ''registry.example.com/repo:tag'' ''sha256:1111'' start =
     (Inr boot_layer,
      start\<lparr>trace :=
        [Fetcher ''registry.example.com/repo:tag'',
         Resolve ''registry.example.com/repo:tag-opt'',
         Resolve ''registry.example.com/repo:tag-nydus'',
         Resolve ''registry.example.com/repo:tag.custom'',
         RetryWithPlainHTTP ''registry.example.com/repo:tag''
           (Errorf ''no tag-based referrer found''),
         Fetcher ''registry.example.com/repo:tag'',
         FetchReferrers ''sha256:1111'',
         Fetch (manifest_desc ''sha256:aaaa'')]\<rparr>) \<and>
   checkReferrer (always_retry (registry ''index empty'' [])) three_suffixes
     ''registry.example.com/repo:tag'' ''sha256:1111'' start =
     (Inl (Errorf ''no tag-based referrer found''),
      start\<lparr>trace :=
        [Fetcher ''registry.example.com/repo:tag'',
         FetchReferrers ''sha256:1111'',
         Resolve ''registry.example.com/repo:tag-opt'',
         Resolve ''registry.example.com/repo:tag-nydus'',
         Resolve ''registry.example.com/repo:tag.custom'',
         RetryWithPlainHTTP ''registry.example.com/repo:tag''
           (Errorf ''no tag-based referrer found''),
         Fetcher ''registry.example.com/repo:tag'',
         FetchReferrers ''sha256:1111'',
         Resolve ''registry.example.com/repo:tag-opt'',
         Resolve ''registry.example.com/repo:tag-nydus'',
         Resolve ''registry.example.com/repo:tag.custom'']\<rparr>)"
proof -
  let ?ref = "''registry.example.com/repo:tag''"
  let ?P = "plain_http_only (registry ''index nydus'' [])"
  let ?Q = "always_retry (registry ''index empty'' [])"
  let ?err = "Errorf ''no tag-based referrer found''"
  let ?p1 = "start\<lparr>trace := [Fetcher ?ref, Resolve ''registry.example.com/repo:tag-opt'',
                Resolve ''registry.example.com/repo:tag-nydus'',
                Resolve ''registry.example.com/repo:tag.custom'']\<rparr>"
  let ?q1 = "start\<lparr>trace := [Fetcher ?ref, FetchReferrers ''sha256:1111'',
                Resolve ''registry.example.com/repo:tag-opt'',
                Resolve ''registry.example.com/repo:tag-nydus'',
                Resolve ''registry.example.com/repo:tag.custom'']\<rparr>"
  have p: "checkReferrer_handle ?P three_suffixes ?ref ''sha256:1111'' start = (Inl ?err, ?p1)"
    by (simp add: checkReferrer_handle_def checkReferrerStandard_def checkReferrerTagBased_def
          validateTagBasedReferrer_def registry_calls plain_http_only_def registry_def
          start_def three_suffixes_def Let_def)
  have pr: "retryWithPlainHTTP ?P (trace ?p1 @ [RetryWithPlainHTTP ?ref ?err])"
    by (simp add: plain_http_only_def)
  have p2: "checkReferrer_handle ?P three_suffixes ?ref ''sha256:1111''
              (emit (RetryWithPlainHTTP ?ref ?err) ?p1) =
            (Inr boot_layer,
             start\<lparr>trace := [Fetcher ?ref, Resolve ''registry.example.com/repo:tag-opt'',
                Resolve ''registry.example.com/repo:tag-nydus'',
                Resolve ''registry.example.com/repo:tag.custom'',
                RetryWithPlainHTTP ?ref ?err, Fetcher ?ref, FetchReferrers ''sha256:1111'',
                Fetch (manifest_desc ''sha256:aaaa'')]\<rparr>)"
    by (simp add: checkReferrer_handle_def checkReferrerStandard_def registry_calls
          plain_http_only_def registry_def start_def Let_def io_ReadAll_def io_LimitReader_def
          maxManifestIndexSize_def decode_index_def decode_manifest_def blobs_def
          manifest_desc_def nydus_manifest_def boot_layer_def blob_layer_def)
  have q: "checkReferrer_handle ?Q three_suffixes ?ref ''sha256:1111'' start = (Inl ?err, ?q1)"
    by (simp add: checkReferrer_handle_def checkReferrerStandard_def checkReferrerTagBased_def
          validateTagBasedReferrer_def registry_calls always_retry_def registry_def
          start_def three_suffixes_def Let_def io_ReadAll_def io_LimitReader_def
          maxManifestIndexSize_def decode_index_def)
  have qr: "retryWithPlainHTTP ?Q (trace ?q1 @ [RetryWithPlainHTTP ?ref ?err])"
    by (simp add: always_retry_def)
  have q2: "checkReferrer_handle ?Q three_suffixes ?ref ''sha256:1111''
              (emit (RetryWithPlainHTTP ?ref ?err) ?q1) =
            (Inl ?err,
             start\<lparr>trace := [Fetcher ?ref, FetchReferrers ''sha256:1111'',
                Resolve ''registry.example.com/repo:tag-opt'',
                Resolve ''registry.example.com/repo:tag-nydus'',
                Resolve ''registry.example.com/repo:tag.custom'',
                RetryWithPlainHTTP ?ref ?err, Fetcher ?ref, FetchReferrers ''sha256:1111'',
                Resolve ''registry.example.com/repo:tag-opt'',
                Resolve ''registry.example.com/repo:tag-nydus'',
                Resolve ''registry.example.com/repo:tag.custom'']\<rparr>)"
    by (simp add: checkReferrer_handle_def checkReferrerStandard_def checkReferrerTagBased_def
          validateTagBasedReferrer_def registry_calls always_retry_def registry_def
          start_def three_suffixes_def Let_def io_ReadAll_def io_LimitReader_def
          maxManifestIndexSize_def decode_index_def)
  from conjunct1 [OF checkReferrer_retry [OF p pr]] p2
  have P: "checkReferrer ?P three_suffixes ?ref ''sha256:1111'' start =
            (Inr boot_layer,
             start\<lparr>trace := [Fetcher ?ref, Resolve ''registry.example.com/repo:tag-opt'',
                Resolve ''registry.example.com/repo:tag-nydus'',
                Resolve ''registry.example.com/repo:tag.custom'',
                RetryWithPlainHTTP ?ref ?err, Fetcher ?ref, FetchReferrers ''sha256:1111'',
                Fetch (manifest_desc ''sha256:aaaa'')]\<rparr>)"
    by (rule trans)
  from conjunct1 [OF checkReferrer_retry [OF q qr]] q2
  have Q: "checkReferrer ?Q three_suffixes ?ref ''sha256:1111'' start =
            (Inl ?err,
             start\<lparr>trace := [Fetcher ?ref, FetchReferrers ''sha256:1111'',
                Resolve ''registry.example.com/repo:tag-opt'',
                Resolve ''registry.example.com/repo:tag-nydus'',
                Resolve ''registry.example.com/repo:tag.custom'',
                RetryWithPlainHTTP ?ref ?err, Fetcher ?ref, FetchReferrers ''sha256:1111'',
                Resolve ''registry.example.com/repo:tag-opt'',
                Resolve ''registry.example.com/repo:tag-nydus'',
                Resolve ''registry.example.com/repo:tag.custom'']\<rparr>)"
    by (rule trans)
  from P Q show ?thesis
    by (intro conjI)
qed

lemma io_LimitReader_idem: "io_LimitReader (io_LimitReader rd n) n = io_LimitReader rd n"
  by (simp add: io_LimitReader_def)

lemma io_ReadAll_limited:
  "n \<le> length (content rc) \<or> readErr rc = None \<Longrightarrow>
   io_ReadAll (io_LimitReader rc n) = Inr (take n (content rc))"
  by (auto simp: io_ReadAll_def io_LimitReader_def)

text \<open>
  C7 (as amended). The standards path reads the referrer response through
  \<^verbatim>\<open>io.LimitReader(rc, maxManifestIndexSize)\<close> and checks no size. For a response of 8 MiB
  or more, and for a shorter one that is read without error, the bytes given to the decoder
  are exactly the first 8388608 bytes of the response (all of it when it is shorter), and
  the outcome is what the decoder makes of them: the decoder's error, or the resolution
  going on with the decoded index as for any response. The outcome for any response is
  the outcome for the response cut to its first 8 MiB.
\<close>

theorem checkReferrerStandard_decodes_prefix:
  assumes "remoteFetcher env (trace w @ [Fetcher ref]) = None"
    and "fetchReferrers env (trace w @ [Fetcher ref, FetchReferrers manifestDigest]) = Inr rc"
    and "maxManifestIndexSize \<le> length (content rc) \<or> readErr rc = None"
    and "w2 = w\<lparr>trace := trace w @ [Fetcher ref, FetchReferrers manifestDigest]\<rparr>"
  shows "checkReferrerStandard env ref manifestDigest w =
     (case unmarshalIndex env (take maxManifestIndexSize (content rc)) of
        Inl err \<Rightarrow> (Inl (Wrap ''unmarshal referrers index'' err), w2)
      | Inr index \<Rightarrow>
     (case manifests index of
        [] \<Rightarrow> (Inl (Errorf ''empty referrer list''), w2)
      | first_manifest # others \<Rightarrow>
     (case fetcher_Fetch env first_manifest w2 of
        (Inl err, w3) \<Rightarrow> (Inl (Wrap ''fetch referrers'' err), w3)
      | (Inr rc2, w3) \<Rightarrow>
     (case io_ReadAll rc2 of
        Inl err \<Rightarrow> (Inl (Wrap ''read manifest'' err), w3)
      | Inr bytes2 \<Rightarrow>
     (case unmarshalManifest env bytes2 of
        Inl err \<Rightarrow> (Inl (Wrap ''unmarshal manifest'' err), w3)
      | Inr manifest \<Rightarrow>
          if length (layers manifest) < 1 then (Inl (Errorf ''invalid manifest''), w3)
          else if \<not> isNydusMetaLayer env (annotations (last (layers manifest)))
               then (Inl (Errorf ''invalid nydus manifest''), w3)
               else (Inr (last (layers manifest)), w3)))))) \<and>
   length (take maxManifestIndexSize (content rc)) \<le> maxManifestIndexSize \<and>
   checkReferrerStandard (cap_referrers env) ref manifestDigest w =
     checkReferrerStandard env ref manifestDigest w"
proof -
  have R: "io_ReadAll (io_LimitReader rc maxManifestIndexSize) =
             Inr (take maxManifestIndexSize (content rc))"
    using assms(3) by (rule io_ReadAll_limited)
  have A: "checkReferrerStandard env ref manifestDigest w =
     (case unmarshalIndex env (take maxManifestIndexSize (content rc)) of
        Inl err \<Rightarrow> (Inl (Wrap ''unmarshal referrers index'' err), w2)
      | Inr index \<Rightarrow>
     (case manifests index of
        [] \<Rightarrow> (Inl (Errorf ''empty referrer list''), w2)
      | first_manifest # others \<Rightarrow>
     (case fetcher_Fetch env first_manifest w2 of
        (Inl err, w3) \<Rightarrow> (Inl (Wrap ''fetch referrers'' err), w3)
      | (Inr rc2, w3) \<Rightarrow>
     (case io_ReadAll rc2 of
        Inl err \<Rightarrow> (Inl (Wrap ''read manifest'' err), w3)
      | Inr bytes2 \<Rightarrow>
     (case unmarshalManifest env bytes2 of
        Inl err \<Rightarrow> (Inl (Wrap ''unmarshal manifest'' err), w3)
      | Inr manifest \<Rightarrow>
          if length (layers manifest) < 1 then (Inl (Errorf ''invalid manifest''), w3)
          else if \<not> isNydusMetaLayer env (annotations (last (layers manifest)))
               then (Inl (Errorf ''invalid nydus manifest''), w3)
               else (Inr (last (layers manifest)), w3))))))"
    using assms(1,2,4)
    by (simp add: checkReferrerStandard_def remote_Fetcher_def fetcher_FetchReferrers_def
          emit_def Let_def R split: sum.splits list.splits prod.splits)
  have C: "checkReferrerStandard (cap_referrers env) ref manifestDigest w =
          checkReferrerStandard env ref manifestDigest w"
    by (simp add: checkReferrerStandard_def registry_calls cap_referrers_def Let_def
          io_LimitReader_idem split: sum.splits option.splits list.splits)
  from A C show ?thesis by simp
qed

lemma dropWhile_replicate_append:
  "P x \<Longrightarrow> dropWhile P (replicate n x @ ys) = dropWhile P ys"
  by (induction n) simp_all

lemma oversized_index_prefix:
  "decode_index (take 8388608 oversized_index) =
     Inr \<lparr>manifests = [manifest_desc ''sha256:aaaa'', manifest_desc ''sha256:bbbb'']\<rparr>"
  by (simp add: oversized_index_def decode_index_def dropWhile_replicate_append)

lemma oversized_garbage_prefix:
  "decode_index (take 8388608 oversized_garbage) = Inl (External 1)"
  by (simp add: oversized_garbage_def decode_index_def dropWhile_replicate_append)

theorem checkReferrerStandard_decodes_prefix_witness:
  "maxManifestIndexSize < length oversized_index \<and>
   checkReferrerStandard (registry oversized_index []) ''registry.example.com/repo:tag''
     ''sha256:1111'' start =
     (Inr boot_layer,
      start\<lparr>trace := [Fetcher ''registry.example.com/repo:tag'', FetchReferrers ''sha256:1111'',
                       Fetch (manifest_desc ''sha256:aaaa'')]\<rparr>) \<and>
   maxManifestIndexSize < length oversized_garbage \<and>
   checkReferrerStandard (registry oversized_garbage []) ''registry.example.com/repo:tag''
     ''sha256:1111'' start =
     (Inl (Wrap ''unmarshal referrers index'' (External 1)),
      start\<lparr>trace := [Fetcher ''registry.example.com/repo:tag'',
                       FetchReferrers ''sha256:1111'']\<rparr>)"
proof -
  let ?ref = "''registry.example.com/repo:tag''"
  let ?A = "registry oversized_index []"
  let ?B = "registry oversized_garbage []"
  have LA: "length oversized_index = 8388619"
    by (simp add: oversized_index_def)
  have LB: "length oversized_garbage = 8388615"
    by (simp add: oversized_garbage_def)
  have a1: "remoteFetcher ?A (trace start @ [Fetcher ?ref]) = None"
    by (simp add: registry_def)
  have a2: "fetchReferrers ?A (trace start @ [Fetcher ?ref, FetchReferrers ''sha256:1111''])
              = Inr \<lparr>content = oversized_index, readErr = None\<rparr>"
    by (simp add: registry_def)
  have a3: "maxManifestIndexSize \<le> length (content \<lparr>content = oversized_index, readErr = None\<rparr>)
            \<or> readErr \<lparr>content = oversized_index, readErr = None\<rparr> = None"
    by simp
  have b1: "remoteFetcher ?B (trace start @ [Fetcher ?ref]) = None"
    by (simp add: registry_def)
  have b2: "fetchReferrers ?B (trace start @ [Fetcher ?ref, FetchReferrers ''sha256:1111''])
              = Inr \<lparr>content = oversized_garbage, readErr = None\<rparr>"
    by (simp add: registry_def)
  have b3: "maxManifestIndexSize \<le> length (content \<lparr>content = oversized_garbage, readErr = None\<rparr>)
            \<or> readErr \<lparr>content = oversized_garbage, readErr = None\<rparr> = None"
    by simp
  have dA: "unmarshalIndex ?A (take maxManifestIndexSize oversized_index) =
              Inr \<lparr>manifests = [manifest_desc ''sha256:aaaa'', manifest_desc ''sha256:bbbb'']\<rparr>"
    by (simp add: registry_def maxManifestIndexSize_def oversized_index_prefix)
  have dB: "unmarshalIndex ?B (take maxManifestIndexSize oversized_garbage) = Inl (External 1)"
    by (simp add: registry_def maxManifestIndexSize_def oversized_garbage_prefix)
  have M: "io_ReadAll \<lparr>content = ''manifest nydus'', readErr = None\<rparr> = Inr ''manifest nydus''"
    by (simp add: io_ReadAll_def)
  have F: "fetcher_Fetch ?A (manifest_desc ''sha256:aaaa'')
             (start\<lparr>trace := trace start @ [Fetcher ?ref, FetchReferrers ''sha256:1111'']\<rparr>) =
           (Inr \<lparr>content = ''manifest nydus'', readErr = None\<rparr>,
            start\<lparr>trace := [Fetcher ?ref, FetchReferrers ''sha256:1111'',
                             Fetch (manifest_desc ''sha256:aaaa'')]\<rparr>)"
    by (simp add: fetcher_Fetch_def emit_def registry_def start_def Let_def blobs_def
          manifest_desc_def)
  have U: "unmarshalManifest ?A ''manifest nydus'' = Inr nydus_manifest"
    by (simp add: registry_def decode_manifest_def)
  have K: "layers nydus_manifest = [blob_layer, boot_layer]"
    by (simp add: nydus_manifest_def)
  have N: "isNydusMetaLayer ?A (annotations boot_layer)"
    by (simp add: registry_def boot_layer_def)
  have A: "checkReferrerStandard ?A ?ref ''sha256:1111'' start =
     (Inr boot_layer,
      start\<lparr>trace := [Fetcher ?ref, FetchReferrers ''sha256:1111'',
                       Fetch (manifest_desc ''sha256:aaaa'')]\<rparr>)"
    using conjunct1 [OF checkReferrerStandard_decodes_prefix [OF a1 a2 a3 refl]]
    by (simp add: dA F M U K N)
  have B: "checkReferrerStandard ?B ?ref ''sha256:1111'' start =
     (Inl (Wrap ''unmarshal referrers index'' (External 1)),
      start\<lparr>trace := [Fetcher ?ref, FetchReferrers ''sha256:1111'']\<rparr>)"
    using conjunct1 [OF checkReferrerStandard_decodes_prefix [OF b1 b2 b3 refl]]
    by (simp add: dB start_def)
  have SA: "maxManifestIndexSize < length oversized_index"
    by (simp add: LA maxManifestIndexSize_def)
  have SB: "maxManifestIndexSize < length oversized_garbage"
    by (simp add: LB maxManifestIndexSize_def)
  from SA A SB B show ?thesis
    by (intro conjI)
qed

text \<open>
  C7 as stated fails: a response of 8388619 bytes, a referrer index followed by white
  space, is no error; its first 8 MiB are decoded and the standards path succeeds.
\<close>

theorem oversized_index_accepted:
  "maxManifestIndexSize < length oversized_index \<and>
   checkReferrerStandard (registry oversized_index []) ''registry.example.com/repo:tag''
     ''sha256:1111'' start =
     (Inr boot_layer,
      start\<lparr>trace := [Fetcher ''registry.example.com/repo:tag'', FetchReferrers ''sha256:1111'',
                       Fetch (manifest_desc ''sha256:aaaa'')]\<rparr>)"
proof -
  have L: "length oversized_index = 8388619"
    by (simp add: oversized_index_def)
  have R: "io_ReadAll (io_LimitReader \<lparr>content = oversized_index, readErr = None\<rparr>
             maxManifestIndexSize) = Inr (take 8388608 oversized_index)"
    by (simp add: io_ReadAll_def io_LimitReader_def maxManifestIndexSize_def L)
  have M: "io_ReadAll \<lparr>content = ''manifest nydus'', readErr = None\<rparr> = Inr ''manifest nydus''"
    by (simp add: io_ReadAll_def)
  have "checkReferrerStandard (registry oversized_index []) ''registry.example.com/repo:tag''
     ''sha256:1111'' start =
     (Inr boot_layer,
      start\<lparr>trace := [Fetcher ''registry.example.com/repo:tag'', FetchReferrers ''sha256:1111'',
                       Fetch (manifest_desc ''sha256:aaaa'')]\<rparr>)"
    by (simp add: checkReferrerStandard_def registry_calls registry_def start_def Let_def R M
          oversized_index_prefix decode_manifest_def blobs_def
          manifest_desc_def nydus_manifest_def boot_layer_def blob_layer_def)
  with L show ?thesis by (simp add: maxManifestIndexSize_def)
qed

section \<open>Properties of the coordinator\<close>

lemma scan_entries_success:
  "scan_entries env source target es end_err w = (None, w') \<Longrightarrow> files w' target \<noteq> None"
proof (induction es)
  case Nil
  then show ?case by (simp split: option.splits)
next
  case (Cons hdr rest)
  show ?case
  proof (cases "hdr_Name hdr = source")
    case True
    with Cons.prems have "atomicWrite env target (body hdr) w = (None, w')" by simp
    from atomicWrite_files [OF this] show ?thesis by simp
  next
    case False
    with Cons show ?thesis by simp
  qed
qed

lemma Unpack_success:
  "Unpack env reader source target w = (None, w') \<Longrightarrow> files w' target \<noteq> None"
  by (auto simp: Unpack_def Let_def dest: scan_entries_success split: sum.splits)

lemma fetchMetadata_handle_success:
  "fetchMetadata_handle env ref desc metadataPath w = (None, w') \<Longrightarrow>
   files w' metadataPath \<noteq> None"
  by (auto simp: fetchMetadata_handle_def dest: Unpack_success
           split: prod.splits option.splits sum.splits)

lemma fetchMetadata_success:
  "fetchMetadata env ref desc metadataPath w = (None, w') \<Longrightarrow>
   files w' metadataPath \<noteq> None"
  by (auto simp: fetchMetadata_def dest: fetchMetadata_handle_success
           split: prod.splits option.splits sum.splits bool.splits)

lemma Manager_TryFetchMetadata_success:
  "Manager_TryFetchMetadata env r ref manifestDigest metadataPath w = (None, w') \<Longrightarrow>
   files w' metadataPath \<noteq> None"
  by (auto simp: Manager_TryFetchMetadata_def dest: fetchMetadata_success
           split: prod.splits sum.splits)

lemma fetch_if_absent_success:
  "fetch_if_absent env r ref manifestDigest metadataPath w = (None, w') \<Longrightarrow>
   files w' metadataPath \<noteq> None"
  by (auto simp: fetch_if_absent_def os_Stat_def emit_def Let_def
           dest: Manager_TryFetchMetadata_success
           split: prod.splits option.splits bool.splits if_splits)

lemma fetch_if_absent_present:
  "files w metadataPath \<noteq> None \<Longrightarrow>
   fetch_if_absent env r ref manifestDigest metadataPath w = (None, emit (Stat metadataPath) w)"
  by (simp add: fetch_if_absent_def os_Stat_def emit_def Let_def)

text \<open>
  C9. After a call of \<open>TryFetchMetadata\<close> for \<open>metadataPath\<close> that returned no error,
  the next call for that path returns no error and makes three calls only: it locks the
  mutex of the path, finds the file with \<^verbatim>\<open>os.Stat\<close>, and unlocks. No call of the
  registry client is made. This holds for the same labels, and for any labels that pass
  the two checks before the mutex.
\<close>

theorem TryFetchMetadata_again:
  assumes "TryFetchMetadata env r labels metadataPath w = (None, w1)"
  shows "TryFetchMetadata env r labels metadataPath w1 =
           (None, w1\<lparr>trace := trace w1 @ [Lock metadataPath, Stat metadataPath,
                                           Unlock metadataPath]\<rparr>) \<and>
         (labels2 (targetRefLabel env) \<noteq> None \<and>
          digestValidate env (case labels2 (targetManifestDigestLabel env) of
                                None \<Rightarrow> [] | Some d \<Rightarrow> d) \<longrightarrow>
          TryFetchMetadata env r2 labels2 metadataPath w1 =
            (None, w1\<lparr>trace := trace w1 @ [Lock metadataPath, Stat metadataPath,
                                            Unlock metadataPath]\<rparr>))"
proof -
  obtain ref where R: "labels (targetRefLabel env) = Some ref"
    using assms by (auto simp: TryFetchMetadata_def split: option.splits)
  let ?dg = "case labels (targetManifestDigestLabel env) of None \<Rightarrow> [] | Some d \<Rightarrow> d"
  have V: "digestValidate env ?dg"
    using assms R by (auto simp: TryFetchMetadata_def Let_def split: if_splits)
  obtain res w0 where F: "fetch_if_absent env r ref ?dg metadataPath (emit (Lock metadataPath) w)
                            = (res, w0)"
    by (cases "fetch_if_absent env r ref ?dg metadataPath (emit (Lock metadataPath) w)")
  with assms R V have "res = None" and W: "w1 = emit (Unlock metadataPath) w0"
    by (simp_all add: TryFetchMetadata_def mutex_Lock_def mutex_Unlock_def Let_def)
  with F have "files w0 metadataPath \<noteq> None"
    by (auto dest: fetch_if_absent_success)
  with W have P: "files w1 metadataPath \<noteq> None"
    by (simp add: emit_def)
  have S: "\<And>r' ref' dg'. fetch_if_absent env r' ref' dg' metadataPath (emit (Lock metadataPath) w1)
             = (None, emit (Stat metadataPath) (emit (Lock metadataPath) w1))"
    using P by (intro fetch_if_absent_present) (simp add: emit_def)
  have A: "TryFetchMetadata env r labels metadataPath w1 =
           (None, w1\<lparr>trace := trace w1 @ [Lock metadataPath, Stat metadataPath,
                                           Unlock metadataPath]\<rparr>)"
    using R V by (simp add: TryFetchMetadata_def mutex_Lock_def mutex_Unlock_def Let_def S)
      (simp add: emit_def)
  have B: "labels2 (targetRefLabel env) \<noteq> None \<and>
          digestValidate env (case labels2 (targetManifestDigestLabel env) of
                                None \<Rightarrow> [] | Some d \<Rightarrow> d) \<longrightarrow>
          TryFetchMetadata env r2 labels2 metadataPath w1 =
            (None, w1\<lparr>trace := trace w1 @ [Lock metadataPath, Stat metadataPath,
                                            Unlock metadataPath]\<rparr>)"
    by (auto simp: TryFetchMetadata_def mutex_Lock_def mutex_Unlock_def Let_def S)
      (simp add: emit_def)
  from A B show ?thesis by simp
qed

lemma first_call:
  "TryFetchMetadata (registry ''index nydus'' []) three_suffixes image_labels
     ''/var/lib/nydus/image.boot'' start = (None, fetched)"
  by (simp add: TryFetchMetadata_def mutex_Lock_def mutex_Unlock_def fetch_if_absent_def
        Manager_TryFetchMetadata_def checkReferrer_def checkReferrer_handle_def checkReferrerStandard_def
        fetchMetadata_def fetchMetadata_handle_def Unpack_def
        atomicWrite_def unix_Open_TMPFILE_def write_and_link_def io_Copy_def
        file_Sync_def unix_Linkat_def os_Stat_def
        registry_calls registry_def start_def image_labels_def Let_def
        io_ReadAll_def io_LimitReader_def maxManifestIndexSize_def metadataNameInLayer_def
        decode_index_def decode_manifest_def blobs_def untar_def fetched_def
        manifest_desc_def nydus_manifest_def boot_layer_def blob_layer_def)

theorem TryFetchMetadata_again_witness:
  "TryFetchMetadata (registry ''index nydus'' []) three_suffixes image_labels
     ''/var/lib/nydus/image.boot'' start = (None, fetched) \<and>
   TryFetchMetadata (registry ''index nydus'' []) three_suffixes image_labels
     ''/var/lib/nydus/image.boot'' fetched =
   (None,
    fetched\<lparr>trace := trace fetched @
        [Lock ''/var/lib/nydus/image.boot'', Stat ''/var/lib/nydus/image.boot'',
         Unlock ''/var/lib/nydus/image.boot'']\<rparr>)"
  using first_call conjunct1 [OF TryFetchMetadata_again [OF first_call]]
  by (intro conjI)

end
